theory Spec2Isabelle
  imports Complex_Main
begin

section \<open>JavaScript values\<close>

text \<open>
  The facade of \<^verbatim>\<open>src/client/chromaClient.ts\<close> is TypeScript over the \<^verbatim>\<open>chromadb\<close> SDK.
  A field that may be \<^verbatim>\<open>undefined\<close>, \<^verbatim>\<open>null\<close> or a value is an \<open>'a opt\<close>; a field the
  source types as optional and never reads from the SDK is an \<open>'a option\<close> (\<open>None\<close> is
  \<^verbatim>\<open>undefined\<close>). Numbers are only carried around, never computed with.
\<close>

datatype 'a opt = Undefined | Null | Val 'a

text \<open>A value of type \<^verbatim>\<open>any\<close> (record metadata, query results).\<close>

datatype jsval =
    JUndefined
  | JNull
  | JBool bool
  | JNum real
  | JStr string
  | JArr "jsval list"
  | JObj "(string \<times> jsval) list"

text \<open>Thrown values: \<^verbatim>\<open>new Error(msg)\<close>, and the \<^verbatim>\<open>TypeError\<close> of a member access on \<^verbatim>\<open>undefined\<close>.\<close>

datatype js_error = Error string | TypeError string

text \<open>Truthiness of an \<^verbatim>\<open>any\<close> value (\<^verbatim>\<open>NaN\<close> is not modelled).\<close>

fun truthy :: "jsval \<Rightarrow> bool" where
  "truthy JUndefined = False"
| "truthy JNull = False"
| "truthy (JBool b) = b"
| "truthy (JNum n) = (n \<noteq> 0)"
| "truthy (JStr s) = (s \<noteq> [])"
| "truthy (JArr xs) = True"
| "truthy (JObj kvs) = True"

text \<open>\<^verbatim>\<open>a || b\<close> on \<^verbatim>\<open>any\<close> values.\<close>

definition js_or :: "jsval \<Rightarrow> jsval \<Rightarrow> jsval" where
  "js_or a b = (if truthy a then a else b)"

text \<open>
  \<^verbatim>\<open>Object.keys(v).length\<close>: the number of own enumerable string keys. An object has its
  keys, an array and a string have their indices, a number and a boolean have none;
  \<^verbatim>\<open>Object.keys\<close> throws on \<^verbatim>\<open>undefined\<close> and \<^verbatim>\<open>null\<close>.
\<close>

fun object_keys_length :: "jsval \<Rightarrow> js_error + nat" where
  "object_keys_length JUndefined = Inl (TypeError ''Cannot convert undefined or null to object'')"
| "object_keys_length JNull = Inl (TypeError ''Cannot convert undefined or null to object'')"
| "object_keys_length (JBool b) = Inr 0"
| "object_keys_length (JNum n) = Inr 0"
| "object_keys_length (JStr s) = Inr (length s)"
| "object_keys_length (JArr xs) = Inr (length xs)"
| "object_keys_length (JObj kvs) = Inr (length kvs)"

text \<open>\<^verbatim>\<open>a || b\<close> where \<open>a\<close> is an optional string: \<^verbatim>\<open>undefined\<close> and \<^verbatim>\<open>''\<close> are falsy.\<close>

definition str_or :: "string option \<Rightarrow> string \<Rightarrow> string" where
  "str_or a b = (case a of None \<Rightarrow> b | Some s \<Rightarrow> if s \<noteq> [] then s else b)"

text \<open>\<^verbatim>\<open>a || b\<close> where \<open>a\<close> is an optional number: \<^verbatim>\<open>undefined\<close> and \<^verbatim>\<open>0\<close> are falsy.\<close>

definition num_or :: "int option \<Rightarrow> int \<Rightarrow> int" where
  "num_or a b = (case a of None \<Rightarrow> b | Some n \<Rightarrow> if n \<noteq> 0 then n else b)"

text \<open>\<^verbatim>\<open>a || b\<close> where \<open>a\<close> is a string that may be \<^verbatim>\<open>undefined\<close> or \<^verbatim>\<open>null\<close>.\<close>

definition opt_str_or :: "string opt \<Rightarrow> string \<Rightarrow> string" where
  "opt_str_or a b = (case a of Val s \<Rightarrow> if s \<noteq> [] then s else b | _ \<Rightarrow> b)"

text \<open>\<^verbatim>\<open>a ?? b\<close>: the left operand unless it is \<^verbatim>\<open>undefined\<close> or \<^verbatim>\<open>null\<close>.\<close>

definition nullish :: "'a opt \<Rightarrow> 'a opt \<Rightarrow> 'a opt" where
  "nullish a b = (case a of Val v \<Rightarrow> Val v | _ \<Rightarrow> b)"

definition js_nullish :: "jsval \<Rightarrow> jsval \<Rightarrow> jsval" where
  "js_nullish a b = (case a of JUndefined \<Rightarrow> b | JNull \<Rightarrow> b | _ \<Rightarrow> a)"

text \<open>\<^verbatim>\<open>xs[i]\<close>: reading past the end of an array gives \<^verbatim>\<open>undefined\<close>.\<close>

definition index :: "'a opt list \<Rightarrow> nat \<Rightarrow> 'a opt" where
  "index xs i = (if i < length xs then xs ! i else Undefined)"

definition js_index :: "jsval list \<Rightarrow> nat \<Rightarrow> jsval" where
  "js_index xs i = (if i < length xs then xs ! i else JUndefined)"

section \<open>Data model\<close>

text \<open>\<^verbatim>\<open>ChromaRecord\<close>, also used as \<^verbatim>\<open>Partial<ChromaRecord>\<close>: every field may be missing.\<close>

record ChromaRecord =
  rec_id :: "string option"
  rec_document :: "string opt"
  rec_metadata :: jsval
  rec_embedding :: "real list opt"

text \<open>The type of the private field \<^verbatim>\<open>config\<close> and of the argument of \<^verbatim>\<open>connect\<close>.\<close>

record config =
  cfg_host :: "string option"
  cfg_port :: "int option"
  cfg_ssl :: "bool option"
  cfg_tenant :: "string option"
  cfg_database :: "string option"
  cfg_apiKey :: "string option"

text \<open>The object literal \<^verbatim>\<open>{ tenant, database }\<close> handed to \<^verbatim>\<open>sdkArgsFor\<close>.\<close>

record scope =
  sc_tenant :: "string option"
  sc_database :: "string option"

text \<open>What \<^verbatim>\<open>sdkArgsFor\<close> returns, the argument of \<^verbatim>\<open>new SDKChromaClient\<close>.\<close>

record sdk_args =
  args_host :: string
  args_port :: int
  args_ssl :: bool
  args_tenant :: "string option"
  args_database :: "string option"
  args_headers :: "(string \<times> string) list option"

text \<open>The argument of \<^verbatim>\<open>new AdminClient\<close>.\<close>

record admin_args =
  adm_host :: string
  adm_port :: int
  adm_ssl :: bool
  adm_headers :: "(string \<times> string) list option"

text \<open>The instance fields of \<^verbatim>\<open>ChromaDbClient\<close>; \<open>'h\<close> is the type of SDK objects.\<close>

record 'h facade =
  connectedF :: bool
  configF :: config
  sdkClientF :: "'h option"
  adminClientF :: "'h option"

text \<open>The state of \<^verbatim>\<open>new ChromaDbClient()\<close>.\<close>

definition new_facade :: "'h facade" where
  "new_facade =
     \<lparr>connectedF = False,
      configF = \<lparr>cfg_host = None, cfg_port = None, cfg_ssl = None, cfg_tenant = None,
                 cfg_database = None, cfg_apiKey = None\<rparr>,
      sdkClientF = None, adminClientF = None\<rparr>"

subsection \<open>Arguments and results of the SDK's collection methods\<close>

text \<open>\<^verbatim>\<open>col.add(addArgs)\<close>; \<open>add_metadatas = None\<close> is the key left out.\<close>

record add_args =
  add_ids :: "string list"
  add_documents :: "string list"
  add_embeddings :: "real list list"
  add_metadatas :: "jsval list option"

text \<open>\<^verbatim>\<open>col.update(args)\<close>; \<open>None\<close> is a key left out.\<close>

record update_args =
  upd_ids :: "string option list"
  upd_documents :: "string opt list option"
  upd_metadatas :: "jsval list option"
  upd_embeddings :: "real list list option"

text \<open>\<^verbatim>\<open>col.get(...)\<close>: its argument, and the parallel arrays of its result.\<close>

record get_args =
  get_ids :: "string list option"
  get_limit :: "int option"
  get_offset :: "int option"
  get_include :: "string list"

record get_result =
  res_ids :: "string list option"
  res_documents :: "string opt list option"
  res_metadatas :: "jsval list option"
  res_embeddings :: "real list opt list option"

text \<open>The \<^verbatim>\<open>opts\<close> of \<^verbatim>\<open>queryCollection\<close> and the \<^verbatim>\<open>qArgs\<close> of \<^verbatim>\<open>col.query\<close>.\<close>

record query_opts =
  opt_queryTexts :: "string list option"
  opt_queryEmbeddings :: "real list list option"
  opt_nResults :: "int option"

record query_args =
  q_queryTexts :: "string list option"
  q_queryEmbeddings :: "real list list option"
  q_nResults :: int

text \<open>An element of the array \<^verbatim>\<open>client.listCollections()\<close> resolves to.\<close>

record collection_item =
  item_id :: "string opt"
  item_name :: "string opt"
  item_count :: "int opt"

text \<open>An element of what \<^verbatim>\<open>listCollections\<close> of the facade returns.\<close>

record collection_ref =
  ref_id :: "string opt"
  ref_name :: "string opt"
  ref_count :: int

text \<open>
  An element of the array \<^verbatim>\<open>adminClient.listDatabases\<close> resolves to, with what
  \<^verbatim>\<open>String(d)\<close> gives for it.
\<close>

record database_item =
  db_name :: "string opt"
  db_id :: "string opt"
  db_string :: string

text \<open>What \<^verbatim>\<open>getUserIdentity()\<close> resolves to.\<close>

record identity =
  identity_tenant :: "string option"

section \<open>The SDK\<close>

text \<open>
  The \<^verbatim>\<open>chromadb\<close> package is outside the repository: it is a parameter. \<open>'w\<close> is the
  state of everything behind it (the server, the network), \<open>'h\<close> the type of the objects
  it hands out (clients, admin clients, collections). Every constructor and method
  either throws (\<open>Inl\<close>) or returns (\<open>Inr\<close>), and may change the state.
\<close>

record ('w, 'h) sdk =
  sdk_newClient :: "sdk_args \<Rightarrow> 'w \<Rightarrow> (js_error + 'h) \<times> 'w"
  sdk_newAdmin :: "admin_args \<Rightarrow> 'w \<Rightarrow> (js_error + 'h) \<times> 'w"
  sdk_version :: "'h \<Rightarrow> 'w \<Rightarrow> (js_error + string) \<times> 'w"
  sdk_getUserIdentity :: "'h \<Rightarrow> 'w \<Rightarrow> (js_error + identity) \<times> 'w"
  sdk_listDatabases :: "'h \<Rightarrow> string \<Rightarrow> 'w \<Rightarrow> (js_error + database_item list option) \<times> 'w"
  sdk_listCollections :: "'h \<Rightarrow> 'w \<Rightarrow> (js_error + collection_item list) \<times> 'w"
  sdk_createCollection :: "'h \<Rightarrow> string \<Rightarrow> 'w \<Rightarrow> (js_error + 'h) \<times> 'w"
  sdk_deleteCollection :: "'h \<Rightarrow> string \<Rightarrow> 'w \<Rightarrow> (js_error + unit) \<times> 'w"
  sdk_getCollection :: "'h \<Rightarrow> string \<Rightarrow> 'w \<Rightarrow> (js_error + 'h) \<times> 'w"
  sdk_getOrCreateCollection :: "'h \<Rightarrow> string \<Rightarrow> 'w \<Rightarrow> (js_error + 'h) \<times> 'w"
  sdk_get :: "'h \<Rightarrow> get_args \<Rightarrow> 'w \<Rightarrow> (js_error + get_result) \<times> 'w"
  sdk_add :: "'h \<Rightarrow> add_args \<Rightarrow> 'w \<Rightarrow> (js_error + unit) \<times> 'w"
  sdk_update :: "'h \<Rightarrow> update_args \<Rightarrow> 'w \<Rightarrow> (js_error + unit) \<times> 'w"
  sdk_delete :: "'h \<Rightarrow> string list \<Rightarrow> 'w \<Rightarrow> (js_error + unit) \<times> 'w"
  sdk_query :: "'h \<Rightarrow> query_args \<Rightarrow> 'w \<Rightarrow> (js_error + jsval) \<times> 'w"
  sdk_modify :: "'h \<Rightarrow> string \<Rightarrow> 'w \<Rightarrow> (js_error + unit) \<times> 'w"
  sdk_createTenant :: "'h \<Rightarrow> string \<Rightarrow> 'w \<Rightarrow> (js_error + unit) \<times> 'w"
  sdk_createDatabase :: "'h \<Rightarrow> string \<Rightarrow> string \<Rightarrow> 'w \<Rightarrow> (js_error + unit) \<times> 'w"
  sdk_deleteDatabase :: "'h \<Rightarrow> string \<Rightarrow> string \<Rightarrow> 'w \<Rightarrow> (js_error + unit) \<times> 'w"

text \<open>The calls the facade makes on the SDK.\<close>

datatype 'h sdk_call =
    NewClient sdk_args
  | NewAdmin admin_args
  | Version 'h
  | GetUserIdentity 'h
  | ListDatabases 'h string
  | ListCollections 'h
  | CreateCollection 'h string
  | DeleteCollection 'h string
  | GetCollection 'h string
  | GetOrCreateCollection 'h string
  | ColGet 'h get_args
  | ColAdd 'h add_args
  | ColUpdate 'h update_args
  | ColDelete 'h "string list"
  | ColQuery 'h query_args
  | ColModify 'h string
  | CreateTenant 'h string
  | CreateDatabase 'h string string
  | DeleteDatabase 'h string string

section \<open>Asynchronous code as a computation with exceptions\<close>

text \<open>
  The SDK calls made, in order, each with what it threw (\<open>None\<close> when it returned).
\<close>

type_synonym 'h trace = "('h sdk_call \<times> js_error option) list"

text \<open>
  An \<^verbatim>\<open>async\<close> body run to completion: from the state behind the SDK to the outcome
  (\<open>Inl\<close> a rejection, \<open>Inr\<close> the resolved value), the new state, and the SDK calls made.
\<close>

type_synonym ('w, 'h, 'a) io = "'w \<Rightarrow> (js_error + 'a) \<times> 'w \<times> 'h trace"

definition ret :: "'a \<Rightarrow> ('w, 'h, 'a) io" where
  "ret x = (\<lambda>w. (Inr x, w, []))"

definition throw :: "js_error \<Rightarrow> ('w, 'h, 'a) io" where
  "throw e = (\<lambda>w. (Inl e, w, []))"

definition bind :: "('w, 'h, 'a) io \<Rightarrow> ('a \<Rightarrow> ('w, 'h, 'b) io) \<Rightarrow> ('w, 'h, 'b) io" where
  "bind m k = (\<lambda>w. case m w of
       (Inl e, w1, t1) \<Rightarrow> (Inl e, w1, t1)
     | (Inr x, w1, t1) \<Rightarrow> (case k x w1 of (r, w2, t2) \<Rightarrow> (r, w2, t1 @ t2)))"

text \<open>\<^verbatim>\<open>try { m } catch (err) { h err }\<close>.\<close>

definition try_catch :: "('w, 'h, 'a) io \<Rightarrow> (js_error \<Rightarrow> ('w, 'h, 'a) io) \<Rightarrow> ('w, 'h, 'a) io" where
  "try_catch m h = (\<lambda>w. case m w of
       (Inl e, w1, t1) \<Rightarrow> (case h e w1 of (r, w2, t2) \<Rightarrow> (r, w2, t1 @ t2))
     | (Inr x, w1, t1) \<Rightarrow> (Inr x, w1, t1))"

text \<open>One call on the SDK, recorded.\<close>

definition thrown :: "js_error + 'a \<Rightarrow> js_error option" where
  "thrown r = (case r of Inl e \<Rightarrow> Some e | Inr x \<Rightarrow> None)"

definition request :: "'h sdk_call \<Rightarrow> ('w \<Rightarrow> (js_error + 'a) \<times> 'w) \<Rightarrow> ('w, 'h, 'a) io" where
  "request c f = (\<lambda>w. case f w of (r, w1) \<Rightarrow> (r, w1, [(c, thrown r)]))"

definition newClient :: "('w, 'h) sdk \<Rightarrow> sdk_args \<Rightarrow> ('w, 'h, 'h) io" where
  "newClient sdk a = request (NewClient a) (sdk_newClient sdk a)"

definition newAdmin :: "('w, 'h) sdk \<Rightarrow> admin_args \<Rightarrow> ('w, 'h, 'h) io" where
  "newAdmin sdk a = request (NewAdmin a) (sdk_newAdmin sdk a)"

definition version :: "('w, 'h) sdk \<Rightarrow> 'h \<Rightarrow> ('w, 'h, string) io" where
  "version sdk c = request (Version c) (sdk_version sdk c)"

definition getUserIdentity :: "('w, 'h) sdk \<Rightarrow> 'h \<Rightarrow> ('w, 'h, identity) io" where
  "getUserIdentity sdk c = request (GetUserIdentity c) (sdk_getUserIdentity sdk c)"

definition adminListDatabases ::
  "('w, 'h) sdk \<Rightarrow> 'h \<Rightarrow> string \<Rightarrow> ('w, 'h, database_item list option) io" where
  "adminListDatabases sdk a t = request (ListDatabases a t) (sdk_listDatabases sdk a t)"

definition clientListCollections :: "('w, 'h) sdk \<Rightarrow> 'h \<Rightarrow> ('w, 'h, collection_item list) io" where
  "clientListCollections sdk c = request (ListCollections c) (sdk_listCollections sdk c)"

definition clientCreateCollection :: "('w, 'h) sdk \<Rightarrow> 'h \<Rightarrow> string \<Rightarrow> ('w, 'h, 'h) io" where
  "clientCreateCollection sdk c n = request (CreateCollection c n) (sdk_createCollection sdk c n)"

definition clientDeleteCollection :: "('w, 'h) sdk \<Rightarrow> 'h \<Rightarrow> string \<Rightarrow> ('w, 'h, unit) io" where
  "clientDeleteCollection sdk c n = request (DeleteCollection c n) (sdk_deleteCollection sdk c n)"

definition getCollection :: "('w, 'h) sdk \<Rightarrow> 'h \<Rightarrow> string \<Rightarrow> ('w, 'h, 'h) io" where
  "getCollection sdk c n = request (GetCollection c n) (sdk_getCollection sdk c n)"

definition getOrCreateCollection :: "('w, 'h) sdk \<Rightarrow> 'h \<Rightarrow> string \<Rightarrow> ('w, 'h, 'h) io" where
  "getOrCreateCollection sdk c n =
     request (GetOrCreateCollection c n) (sdk_getOrCreateCollection sdk c n)"

definition colGet :: "('w, 'h) sdk \<Rightarrow> 'h \<Rightarrow> get_args \<Rightarrow> ('w, 'h, get_result) io" where
  "colGet sdk col a = request (ColGet col a) (sdk_get sdk col a)"

definition colAdd :: "('w, 'h) sdk \<Rightarrow> 'h \<Rightarrow> add_args \<Rightarrow> ('w, 'h, unit) io" where
  "colAdd sdk col a = request (ColAdd col a) (sdk_add sdk col a)"

definition colUpdate :: "('w, 'h) sdk \<Rightarrow> 'h \<Rightarrow> update_args \<Rightarrow> ('w, 'h, unit) io" where
  "colUpdate sdk col a = request (ColUpdate col a) (sdk_update sdk col a)"

definition colDelete :: "('w, 'h) sdk \<Rightarrow> 'h \<Rightarrow> string list \<Rightarrow> ('w, 'h, unit) io" where
  "colDelete sdk col ids = request (ColDelete col ids) (sdk_delete sdk col ids)"

definition colQuery :: "('w, 'h) sdk \<Rightarrow> 'h \<Rightarrow> query_args \<Rightarrow> ('w, 'h, jsval) io" where
  "colQuery sdk col a = request (ColQuery col a) (sdk_query sdk col a)"

definition colModify :: "('w, 'h) sdk \<Rightarrow> 'h \<Rightarrow> string \<Rightarrow> ('w, 'h, unit) io" where
  "colModify sdk col n = request (ColModify col n) (sdk_modify sdk col n)"

definition adminCreateTenant :: "('w, 'h) sdk \<Rightarrow> 'h \<Rightarrow> string \<Rightarrow> ('w, 'h, unit) io" where
  "adminCreateTenant sdk a n = request (CreateTenant a n) (sdk_createTenant sdk a n)"

definition adminCreateDatabase ::
  "('w, 'h) sdk \<Rightarrow> 'h \<Rightarrow> string \<Rightarrow> string \<Rightarrow> ('w, 'h, unit) io" where
  "adminCreateDatabase sdk a t n = request (CreateDatabase a t n) (sdk_createDatabase sdk a t n)"

definition adminDeleteDatabase ::
  "('w, 'h) sdk \<Rightarrow> 'h \<Rightarrow> string \<Rightarrow> string \<Rightarrow> ('w, 'h, unit) io" where
  "adminDeleteDatabase sdk a t n = request (DeleteDatabase a t n) (sdk_deleteDatabase sdk a t n)"

section \<open>The facade\<close>

text \<open>
  \<^verbatim>\<open>sdkArgsFor(cfg?)\<close>. The spread \<^verbatim>\<open>{ ...this.config, ...(cfg || {}) }\<close> copies every own
  key of \<open>cfg\<close>, also one whose value is \<^verbatim>\<open>undefined\<close>: with \<^verbatim>\<open>{ tenant, database }\<close> both
  keys of the result are the arguments', and the configured ones are used only when
  no \<open>cfg\<close> is given.
\<close>

definition sdkArgsFor :: "'h facade \<Rightarrow> scope option \<Rightarrow> sdk_args" where
  "sdkArgsFor this cfg =
     (let c = configF this;
          c_tenant = (case cfg of None \<Rightarrow> cfg_tenant c | Some s \<Rightarrow> sc_tenant s);
          c_database = (case cfg of None \<Rightarrow> cfg_database c | Some s \<Rightarrow> sc_database s);
          headers = (case cfg_apiKey c of
                       None \<Rightarrow> None
                     | Some k \<Rightarrow> if k \<noteq> [] then Some [(''x-chroma-token'', k)] else None)
      in \<lparr>args_host = str_or (cfg_host c) ''localhost'',
          args_port = num_or (cfg_port c) 8000,
          args_ssl = (cfg_ssl c = Some True),
          args_tenant = c_tenant,
          args_database = c_database,
          args_headers = headers\<rparr>)"

text \<open>\<^verbatim>\<open>new SDKChromaClient(this.sdkArgsFor({ tenant, database }))\<close>.\<close>

definition scopedClient ::
  "('w, 'h) sdk \<Rightarrow> 'h facade \<Rightarrow> string option \<Rightarrow> string option \<Rightarrow> ('w, 'h, 'h) io" where
  "scopedClient sdk this tenant database =
     newClient sdk (sdkArgsFor this (Some \<lparr>sc_tenant = tenant, sc_database = database\<rparr>))"

definition not_connected :: js_error where
  "not_connected = Error ''not connected''"

text \<open>
  \<^verbatim>\<open>addRecord\<close>, line 140: \<^verbatim>\<open>embeddingToSend\<close> is \<^verbatim>\<open>record.embedding\<close> when that is an
  array of positive length, and \<^verbatim>\<open>[0.0]\<close> otherwise.
\<close>

definition embeddingToSend :: "ChromaRecord \<Rightarrow> real list" where
  "embeddingToSend record =
     (case rec_embedding record of
        Val e \<Rightarrow> if length e > 0 then e else [0]
      | _ \<Rightarrow> [0])"

text \<open>
  Lines 143 and 144: \<^verbatim>\<open>addArgs\<close> with the ids, the documents and the embeddings, and with the
  metadata when \<^verbatim>\<open>record.metadata !== undefined\<close> and
  \<^verbatim>\<open>Object.keys(record.metadata || {}).length > 0\<close>.
\<close>

definition addArgs :: "string \<Rightarrow> ChromaRecord \<Rightarrow> add_args" where
  "addArgs ident record =
     (let a = \<lparr>add_ids = [ident],
               add_documents = [opt_str_or (rec_document record) ''''],
               add_embeddings = [embeddingToSend record],
               add_metadatas = None\<rparr>
      in if rec_metadata record \<noteq> JUndefined \<and>
            (case object_keys_length (js_or (rec_metadata record) (JObj [])) of
               Inr n \<Rightarrow> n > 0 | Inl e \<Rightarrow> False)
         then a\<lparr>add_metadatas := Some [rec_metadata record]\<rparr>
         else a)"

text \<open>
  \<open>generated\<close> is what the template literal built from \<^verbatim>\<open>Date.now()\<close> and
  \<^verbatim>\<open>Math.random()\<close> evaluates to; it is used when \<^verbatim>\<open>record.id\<close> is missing or empty.
\<close>

definition addRecord ::
  "('w, 'h) sdk \<Rightarrow> 'h facade \<Rightarrow> string option \<Rightarrow> string option \<Rightarrow> string \<Rightarrow> ChromaRecord \<Rightarrow>
   string \<Rightarrow> ('w, 'h, string) io" where
  "addRecord sdk this tenant database collection record generated =
     (if \<not> connectedF this then throw not_connected
      else bind (scopedClient sdk this tenant database) (\<lambda>client.
        let ident = str_or (rec_id record) generated
        in try_catch
             (bind (getOrCreateCollection sdk client collection) (\<lambda>col.
              bind (colAdd sdk col (addArgs ident record)) (\<lambda>_.
              ret ident)))
             (\<lambda>err. throw err)))"

text \<open>
  \<^verbatim>\<open>connect\<close> assigns the fields of \<^verbatim>\<open>this\<close> as it goes, so it runs over the pair of
  the facade and the state behind the SDK.
\<close>

definition get_this :: "('h facade \<times> 'w, 'h, 'h facade) io" where
  "get_this = (\<lambda>(this, w). (Inr this, (this, w), []))"

definition modify_this :: "('h facade \<Rightarrow> 'h facade) \<Rightarrow> ('h facade \<times> 'w, 'h, unit) io" where
  "modify_this f = (\<lambda>(this, w). (Inr (), (f this, w), []))"

definition lift :: "('w, 'h, 'a) io \<Rightarrow> ('h facade \<times> 'w, 'h, 'a) io" where
  "lift m = (\<lambda>(this, w). case m w of (r, w1, t1) \<Rightarrow> (r, (this, w1), t1))"

text \<open>The object literal \<^verbatim>\<open>connect\<close> gives to \<^verbatim>\<open>new AdminClient\<close>.\<close>

definition adminArgsFor :: "'h facade \<Rightarrow> admin_args" where
  "adminArgsFor this =
     (let c = configF this
      in \<lparr>adm_host = str_or (cfg_host c) ''localhost'',
          adm_port = num_or (cfg_port c) 8000,
          adm_ssl = (cfg_ssl c = Some True),
          adm_headers = (case cfg_apiKey c of
                           None \<Rightarrow> None
                         | Some k \<Rightarrow> if k \<noteq> [] then Some [(''x-chroma-token'', k)] else None)\<rparr>)"

definition connect :: "('w, 'h) sdk \<Rightarrow> config \<Rightarrow> ('h facade \<times> 'w, 'h, bool) io" where
  "connect sdk cfg =
     bind (modify_this (\<lambda>this. this\<lparr>configF := cfg\<rparr>)) (\<lambda>_.
     try_catch
       (bind get_this (\<lambda>this.
        bind (lift (newClient sdk (sdkArgsFor this None))) (\<lambda>c.
        bind (modify_this (\<lambda>this. this\<lparr>sdkClientF := Some c\<rparr>)) (\<lambda>_.
        bind get_this (\<lambda>this.
        bind (lift (newAdmin sdk (adminArgsFor this))) (\<lambda>a.
        bind (modify_this (\<lambda>this. this\<lparr>adminClientF := Some a\<rparr>)) (\<lambda>_.
        bind get_this (\<lambda>this.
        bind (case sdkClientF this of
                None \<Rightarrow> throw (TypeError ''sdkClient is undefined'')
              | Some c \<Rightarrow> lift (version sdk c)) (\<lambda>_.
        bind (modify_this (\<lambda>this. this\<lparr>connectedF := True\<rparr>)) (\<lambda>_.
        ret True))))))))))
       (\<lambda>err.
        bind (modify_this (\<lambda>this. this\<lparr>connectedF := False\<rparr>)) (\<lambda>_.
        bind (modify_this (\<lambda>this. this\<lparr>sdkClientF := None\<rparr>)) (\<lambda>_.
        bind (modify_this (\<lambda>this. this\<lparr>adminClientF := None\<rparr>)) (\<lambda>_.
        ret False)))))"

definition isConnected :: "'h facade \<Rightarrow> bool" where
  "isConnected this = connectedF this"

definition listTenants :: "('w, 'h) sdk \<Rightarrow> 'h facade \<Rightarrow> ('w, 'h, string list) io" where
  "listTenants sdk this =
     (if \<not> connectedF this then ret []
      else try_catch
             (bind (case sdkClientF this of
                      None \<Rightarrow> throw (TypeError ''sdkClient is undefined'')
                    | Some c \<Rightarrow> getUserIdentity sdk c) (\<lambda>ident.
              ret [str_or (identity_tenant ident)
                     (str_or (cfg_tenant (configF this)) ''default_tenant'')]))
             (\<lambda>err. ret [str_or (cfg_tenant (configF this)) ''default_tenant'']))"

text \<open>\<^verbatim>\<open>d.name ?? d.id ?? String(d)\<close>.\<close>

definition database_label :: "database_item \<Rightarrow> string" where
  "database_label d =
     (case db_name d of
        Val n \<Rightarrow> n
      | _ \<Rightarrow> (case db_id d of Val i \<Rightarrow> i | _ \<Rightarrow> db_string d))"

text \<open>
  The guard \<^verbatim>\<open>!this.connected || !this.adminClient\<close> of \<^verbatim>\<open>listDatabases\<close> and of the three
  administrative operations is read as a case on the admin client, which the body then
  uses.
\<close>

definition listDatabases ::
  "('w, 'h) sdk \<Rightarrow> 'h facade \<Rightarrow> string option \<Rightarrow> ('w, 'h, string list) io" where
  "listDatabases sdk this tenant =
     (case adminClientF this of
        None \<Rightarrow> ret []
      | Some admin \<Rightarrow>
          if \<not> connectedF this then ret []
          else
            let tName = str_or tenant (str_or (cfg_tenant (configF this)) ''default_tenant'')
            in try_catch
                 (bind (adminListDatabases sdk admin tName) (\<lambda>dbs.
                  ret (case dbs of Some ds \<Rightarrow> map database_label ds | None \<Rightarrow> [])))
                 (\<lambda>err. ret []))"

definition collection_ref_of :: "collection_item \<Rightarrow> collection_ref" where
  "collection_ref_of c =
     \<lparr>ref_id = nullish (item_id c) (item_name c),
      ref_name = nullish (item_name c) (item_id c),
      ref_count = (case item_count c of Val n \<Rightarrow> n | _ \<Rightarrow> 0)\<rparr>"

definition listCollections ::
  "('w, 'h) sdk \<Rightarrow> 'h facade \<Rightarrow> string option \<Rightarrow> string option \<Rightarrow>
   ('w, 'h, collection_ref list) io" where
  "listCollections sdk this tenant database =
     (if \<not> connectedF this then ret []
      else try_catch
             (bind (scopedClient sdk this tenant database) (\<lambda>client.
              bind (clientListCollections sdk client) (\<lambda>cols.
              ret (map collection_ref_of cols))))
             (\<lambda>err. ret []))"

text \<open>
  The \<^verbatim>\<open>for ... of\<close> loop of \<^verbatim>\<open>resolveCollectionId\<close>: \<open>Some v\<close> when it returns \<open>v\<close>,
  \<open>None\<close> when it runs to the end of the listing.
\<close>

fun resolve_loop :: "collection_item list \<Rightarrow> string \<Rightarrow> string opt option" where
  "resolve_loop [] collectionOrId = None"
| "resolve_loop (item # rest) collectionOrId =
     (if item_id item = Val collectionOrId \<or> item_name item = Val collectionOrId
      then Some (nullish (item_id item) (item_name item))
      else resolve_loop rest collectionOrId)"

definition resolveCollectionId ::
  "('w, 'h) sdk \<Rightarrow> 'h facade \<Rightarrow> string option \<Rightarrow> string option \<Rightarrow> string \<Rightarrow>
   ('w, 'h, string opt) io" where
  "resolveCollectionId sdk this tenant database collectionOrId =
     (if \<not> connectedF this then ret (Val collectionOrId)
      else bind (try_catch
                   (bind (scopedClient sdk this tenant database) (\<lambda>client.
                    bind (clientListCollections sdk client) (\<lambda>cols.
                    ret (resolve_loop cols collectionOrId))))
                   (\<lambda>err. ret None)) (\<lambda>returned.
           case returned of
             Some v \<Rightarrow> ret v
           | None \<Rightarrow> ret (Val collectionOrId)))"

definition createCollection ::
  "('w, 'h) sdk \<Rightarrow> 'h facade \<Rightarrow> string option \<Rightarrow> string option \<Rightarrow> string \<Rightarrow>
   ('w, 'h, bool) io" where
  "createCollection sdk this tenant database name =
     (if \<not> connectedF this then throw not_connected
      else bind (scopedClient sdk this tenant database) (\<lambda>client.
           try_catch
             (bind (clientCreateCollection sdk client name) (\<lambda>_. ret True))
             (\<lambda>err. throw err)))"

definition deleteCollection ::
  "('w, 'h) sdk \<Rightarrow> 'h facade \<Rightarrow> string option \<Rightarrow> string option \<Rightarrow> string \<Rightarrow>
   ('w, 'h, bool) io" where
  "deleteCollection sdk this tenant database name =
     (if \<not> connectedF this then throw not_connected
      else bind (scopedClient sdk this tenant database) (\<lambda>client.
           try_catch
             (bind (clientDeleteCollection sdk client name) (\<lambda>_. ret True))
             (\<lambda>err. throw err)))"

text \<open>The \<^verbatim>\<open>for\<close> loop of \<^verbatim>\<open>listRecords\<close>, from index \<open>i\<close> with \<open>out\<close> built so far.\<close>

function listRecords_loop ::
  "string list \<Rightarrow> string opt list \<Rightarrow> jsval list \<Rightarrow> real list opt list \<Rightarrow> nat \<Rightarrow>
   ChromaRecord list \<Rightarrow> ChromaRecord list" where
  "listRecords_loop ids docs metas embs i out =
     (if i < length ids
      then listRecords_loop ids docs metas embs (Suc i)
             (out @ [\<lparr>rec_id = Some (ids ! i),
                      rec_document = nullish (index docs i) Undefined,
                      rec_metadata = js_nullish (js_index metas i) JUndefined,
                      rec_embedding = nullish (index embs i) Undefined\<rparr>])
      else out)"
  by pat_completeness auto
termination
  by (relation "measure (\<lambda>(ids, docs, metas, embs, i, out). length ids - i)") auto

text \<open>\<^verbatim>\<open>xs || []\<close> for an array that may be missing.\<close>

definition or_empty :: "'a list option \<Rightarrow> 'a list" where
  "or_empty xs = (case xs of None \<Rightarrow> [] | Some ys \<Rightarrow> ys)"

definition include_all :: "string list" where
  "include_all = [''documents'', ''metadatas'', ''embeddings'']"

text \<open>The parameters \<^verbatim>\<open>limit = 50, offset = 0\<close>: \<open>None\<close> is an argument left out.\<close>

definition listRecords ::
  "('w, 'h) sdk \<Rightarrow> 'h facade \<Rightarrow> string option \<Rightarrow> string option \<Rightarrow> string \<Rightarrow>
   int option \<Rightarrow> int option \<Rightarrow> ('w, 'h, ChromaRecord list) io" where
  "listRecords sdk this tenant database collection limit offset =
     (let lim = (case limit of None \<Rightarrow> 50 | Some l \<Rightarrow> l);
          off = (case offset of None \<Rightarrow> 0 | Some k \<Rightarrow> k)
      in if \<not> connectedF this then ret []
         else bind (scopedClient sdk this tenant database) (\<lambda>client.
              try_catch
                (bind (getCollection sdk client collection) (\<lambda>col.
                 bind (colGet sdk col \<lparr>get_ids = None, get_limit = Some lim,
                                       get_offset = Some off, get_include = include_all\<rparr>) (\<lambda>res.
                 ret (listRecords_loop (or_empty (res_ids res)) (or_empty (res_documents res))
                        (or_empty (res_metadatas res)) (or_empty (res_embeddings res)) 0 []))))
                (\<lambda>err. ret [])))"

text \<open>\<^verbatim>\<open>getRecord\<close>: \<open>None\<close> is \<^verbatim>\<open>undefined\<close>.\<close>

definition getRecord ::
  "('w, 'h) sdk \<Rightarrow> 'h facade \<Rightarrow> string option \<Rightarrow> string option \<Rightarrow> string \<Rightarrow> string \<Rightarrow>
   ('w, 'h, ChromaRecord option) io" where
  "getRecord sdk this tenant database collection ident =
     (if \<not> connectedF this then ret None
      else bind (scopedClient sdk this tenant database) (\<lambda>client.
           try_catch
             (bind (getCollection sdk client collection) (\<lambda>col.
              bind (colGet sdk col \<lparr>get_ids = Some [ident], get_limit = None,
                                    get_offset = None, get_include = include_all\<rparr>) (\<lambda>res.
              let ids = or_empty (res_ids res)
              in if length ids = 0 then ret None
                 else ret (Some \<lparr>rec_id = Some (ids ! 0),
                                 rec_document = index (or_empty (res_documents res)) 0,
                                 rec_metadata = js_index (or_empty (res_metadatas res)) 0,
                                 rec_embedding = index (or_empty (res_embeddings res)) 0\<rparr>))))
             (\<lambda>err. ret None)))"

text \<open>\<^verbatim>\<open>queryCollection\<close>: the SDK's result as it is, or the empty array.\<close>

definition queryCollection ::
  "('w, 'h) sdk \<Rightarrow> 'h facade \<Rightarrow> string option \<Rightarrow> string option \<Rightarrow> string \<Rightarrow> query_opts \<Rightarrow>
   ('w, 'h, jsval) io" where
  "queryCollection sdk this tenant database collection opts =
     (if \<not> connectedF this then ret (JArr [])
      else bind (scopedClient sdk this tenant database) (\<lambda>client.
           try_catch
             (bind (getCollection sdk client collection) (\<lambda>col.
              let qArgs = \<lparr>q_queryTexts = opt_queryTexts opts,
                           q_queryEmbeddings = opt_queryEmbeddings opts,
                           q_nResults = (case opt_nResults opts of None \<Rightarrow> 5 | Some n \<Rightarrow> n)\<rparr>
              in bind (colQuery sdk col qArgs) (\<lambda>res. ret res)))
             (\<lambda>err. ret (JArr []))))"

definition createTenant :: "('w, 'h) sdk \<Rightarrow> 'h facade \<Rightarrow> string \<Rightarrow> ('w, 'h, bool) io" where
  "createTenant sdk this name =
     (case adminClientF this of
        None \<Rightarrow> throw not_connected
      | Some admin \<Rightarrow>
          if \<not> connectedF this then throw not_connected
          else try_catch
                 (bind (adminCreateTenant sdk admin name) (\<lambda>_. ret True))
                 (\<lambda>err. throw err))"

definition createDatabase ::
  "('w, 'h) sdk \<Rightarrow> 'h facade \<Rightarrow> string \<Rightarrow> string \<Rightarrow> ('w, 'h, bool) io" where
  "createDatabase sdk this tenant name =
     (case adminClientF this of
        None \<Rightarrow> throw not_connected
      | Some admin \<Rightarrow>
          if \<not> connectedF this then throw not_connected
          else try_catch
                 (bind (adminCreateDatabase sdk admin tenant name) (\<lambda>_. ret True))
                 (\<lambda>err. throw err))"

definition deleteDatabase ::
  "('w, 'h) sdk \<Rightarrow> 'h facade \<Rightarrow> string \<Rightarrow> string \<Rightarrow> ('w, 'h, bool) io" where
  "deleteDatabase sdk this tenant name =
     (case adminClientF this of
        None \<Rightarrow> throw not_connected
      | Some admin \<Rightarrow>
          if \<not> connectedF this then throw not_connected
          else try_catch
                 (bind (adminDeleteDatabase sdk admin tenant name) (\<lambda>_. ret True))
                 (\<lambda>err. throw err))"

definition renameCollection ::
  "('w, 'h) sdk \<Rightarrow> 'h facade \<Rightarrow> string option \<Rightarrow> string option \<Rightarrow> string \<Rightarrow> string \<Rightarrow>
   ('w, 'h, bool) io" where
  "renameCollection sdk this tenant database oldName newName =
     (if \<not> connectedF this then throw not_connected
      else bind (scopedClient sdk this tenant database) (\<lambda>client.
           try_catch
             (bind (getCollection sdk client oldName) (\<lambda>col.
              bind (colModify sdk col newName) (\<lambda>_.
              ret True)))
             (\<lambda>err. throw err)))"

text \<open>\<^verbatim>\<open>Array.isArray(e) && e.length > 0\<close>.\<close>

definition nonEmptyArray :: "real list opt \<Rightarrow> bool" where
  "nonEmptyArray e = (case e of Val xs \<Rightarrow> length xs > 0 | _ \<Rightarrow> False)"

text \<open>The arguments of \<^verbatim>\<open>col.update\<close> before the embedding is decided.\<close>

definition updateArgs :: "ChromaRecord \<Rightarrow> update_args" where
  "updateArgs record =
     (let a0 = \<lparr>upd_ids = [rec_id record], upd_documents = None, upd_metadatas = None,
                upd_embeddings = None\<rparr>;
          a1 = (if rec_document record \<noteq> Undefined
                then a0\<lparr>upd_documents := Some [rec_document record]\<rparr> else a0)
      in if rec_metadata record \<noteq> JUndefined
         then a1\<lparr>upd_metadatas := Some [rec_metadata record]\<rparr> else a1)"

text \<open>\<^verbatim>\<open>args.embeddings = [e]\<close> when \<open>e\<close> is a non-empty array.\<close>

definition withEmbedding :: "update_args \<Rightarrow> real list opt \<Rightarrow> update_args" where
  "withEmbedding args e =
     (case e of
        Val xs \<Rightarrow> if length xs > 0 then args\<lparr>upd_embeddings := Some [xs]\<rparr> else args
      | _ \<Rightarrow> args)"

definition updateRecord ::
  "('w, 'h) sdk \<Rightarrow> 'h facade \<Rightarrow> string option \<Rightarrow> string option \<Rightarrow> string \<Rightarrow> ChromaRecord \<Rightarrow>
   ('w, 'h, bool) io" where
  "updateRecord sdk this tenant database collection record =
     (if \<not> connectedF this then throw not_connected
      else bind (scopedClient sdk this tenant database) (\<lambda>client.
           try_catch
             (bind (getCollection sdk client collection) (\<lambda>col.
              let args = updateArgs record
              in bind (if nonEmptyArray (rec_embedding record)
                       then ret (withEmbedding args (rec_embedding record))
                       else (case rec_id record of
                               None \<Rightarrow> ret args
                             | Some ident \<Rightarrow>
                                 if ident = [] then ret args
                                 else try_catch
                                        (bind (getRecord sdk this tenant database collection ident)
                                           (\<lambda>existing.
                                            case existing of
                                              None \<Rightarrow> ret args
                                            | Some r \<Rightarrow> ret (withEmbedding args (rec_embedding r))))
                                        (\<lambda>_. ret args))) (\<lambda>args.
                 bind (colUpdate sdk col args) (\<lambda>_.
                 ret True))))
             (\<lambda>err. throw err)))"

definition deleteRecord ::
  "('w, 'h) sdk \<Rightarrow> 'h facade \<Rightarrow> string option \<Rightarrow> string option \<Rightarrow> string \<Rightarrow> string \<Rightarrow>
   ('w, 'h, bool) io" where
  "deleteRecord sdk this tenant database collection ident =
     (if \<not> connectedF this then throw not_connected
      else bind (scopedClient sdk this tenant database) (\<lambda>client.
           try_catch
             (bind (getCollection sdk client collection) (\<lambda>col.
              bind (colDelete sdk col [ident]) (\<lambda>_.
              ret True)))
             (\<lambda>err. throw err)))"

section \<open>The specification's reading of a result\<close>

text \<open>
  Entry \<open>i\<close> of one of the parallel arrays of a \<^verbatim>\<open>get\<close> result, as the specification
  reads it: absent when the array is missing, is too short, or holds \<^verbatim>\<open>null\<close> there.
\<close>

definition entry_at :: "'a opt list option \<Rightarrow> nat \<Rightarrow> 'a opt" where
  "entry_at arr i =
     (case arr of
        None \<Rightarrow> Undefined
      | Some xs \<Rightarrow>
          if i < length xs then (case xs ! i of Val v \<Rightarrow> Val v | _ \<Rightarrow> Undefined)
          else Undefined)"

definition metadata_at :: "jsval list option \<Rightarrow> nat \<Rightarrow> jsval" where
  "metadata_at arr i =
     (case arr of
        None \<Rightarrow> JUndefined
      | Some xs \<Rightarrow>
          if i < length xs then (if xs ! i = JNull then JUndefined else xs ! i)
          else JUndefined)"

text \<open>
  The embedding policy of \<^verbatim>\<open>updateRecord\<close> as the specification words it: the supplied
  embedding if non-empty, else the existing embedding if fetched and non-empty, else
  none. \<open>Undefined\<close> stands for an existing record that could not be fetched.
\<close>

definition effective_embedding :: "real list opt \<Rightarrow> real list opt \<Rightarrow> real list option" where
  "effective_embedding supplied existing =
     (case supplied of
        Val e \<Rightarrow> if e \<noteq> [] then Some e
                 else (case existing of Val x \<Rightarrow> if x \<noteq> [] then Some x else None | _ \<Rightarrow> None)
      | _ \<Rightarrow> (case existing of Val x \<Rightarrow> if x \<noteq> [] then Some x else None | _ \<Rightarrow> None))"

subsection \<open>Failed calls of a trace\<close>

text \<open>Some SDK call of the trace threw \<open>e\<close>.\<close>

definition threw :: "'h trace \<Rightarrow> js_error \<Rightarrow> bool" where
  "threw calls e = (Some e \<in> set (map snd calls))"

text \<open>Building a session object, as opposed to a request to the store.\<close>

fun is_construction :: "'h sdk_call \<Rightarrow> bool" where
  "is_construction (NewClient a) = True"
| "is_construction (NewAdmin a) = True"
| "is_construction c = False"

text \<open>Some request of the trace threw \<open>e\<close>.\<close>

definition request_threw :: "'h trace \<Rightarrow> js_error \<Rightarrow> bool" where
  "request_threw calls e =
     (Some e \<in> set (map snd (filter (\<lambda>x. \<not> is_construction (fst x)) calls)))"

text \<open>The last SDK call of the trace threw \<open>e\<close>.\<close>

definition last_threw :: "'h trace \<Rightarrow> js_error \<Rightarrow> bool" where
  "last_threw calls e = (calls \<noteq> [] \<and> snd (last calls) = Some e)"

section \<open>Stores for concrete runs\<close>

text \<open>
  A store where every call succeeds: the state counts the calls, the client is object 1,
  the admin client object 2, every collection object 3; \<^verbatim>\<open>listCollections\<close> answers
  \<open>cols\<close> and \<^verbatim>\<open>get\<close> answers \<open>res\<close>.
\<close>

definition stub_sdk :: "collection_item list \<Rightarrow> get_result \<Rightarrow> (nat, nat) sdk" where
  "stub_sdk cols res =
     \<lparr>sdk_newClient = (\<lambda>a w. (Inr 1, Suc w)),
      sdk_newAdmin = (\<lambda>a w. (Inr 2, Suc w)),
      sdk_version = (\<lambda>c w. (Inr ''1.0.0'', Suc w)),
      sdk_getUserIdentity = (\<lambda>c w. (Inr \<lparr>identity_tenant = Some ''acme''\<rparr>, Suc w)),
      sdk_listDatabases = (\<lambda>a t w. (Inr (Some []), Suc w)),
      sdk_listCollections = (\<lambda>c w. (Inr cols, Suc w)),
      sdk_createCollection = (\<lambda>c n w. (Inr 3, Suc w)),
      sdk_deleteCollection = (\<lambda>c n w. (Inr (), Suc w)),
      sdk_getCollection = (\<lambda>c n w. (Inr 3, Suc w)),
      sdk_getOrCreateCollection = (\<lambda>c n w. (Inr 3, Suc w)),
      sdk_get = (\<lambda>col a w. (Inr res, Suc w)),
      sdk_add = (\<lambda>col a w. (Inr (), Suc w)),
      sdk_update = (\<lambda>col a w. (Inr (), Suc w)),
      sdk_delete = (\<lambda>col ids w. (Inr (), Suc w)),
      sdk_query = (\<lambda>col a w. (Inr (JObj []), Suc w)),
      sdk_modify = (\<lambda>col n w. (Inr (), Suc w)),
      sdk_createTenant = (\<lambda>a n w. (Inr (), Suc w)),
      sdk_createDatabase = (\<lambda>a t n w. (Inr (), Suc w)),
      sdk_deleteDatabase = (\<lambda>a t n w. (Inr (), Suc w))\<rparr>"

text \<open>A store that is down: the client objects are built, and every request throws.\<close>

definition fetch_failed :: js_error where
  "fetch_failed = Error ''fetch failed''"

definition down_sdk :: "(nat, nat) sdk" where
  "down_sdk =
     \<lparr>sdk_newClient = (\<lambda>a w. (Inr 1, Suc w)),
      sdk_newAdmin = (\<lambda>a w. (Inr 2, Suc w)),
      sdk_version = (\<lambda>c w. (Inl fetch_failed, Suc w)),
      sdk_getUserIdentity = (\<lambda>c w. (Inl fetch_failed, Suc w)),
      sdk_listDatabases = (\<lambda>a t w. (Inl fetch_failed, Suc w)),
      sdk_listCollections = (\<lambda>c w. (Inl fetch_failed, Suc w)),
      sdk_createCollection = (\<lambda>c n w. (Inl fetch_failed, Suc w)),
      sdk_deleteCollection = (\<lambda>c n w. (Inl fetch_failed, Suc w)),
      sdk_getCollection = (\<lambda>c n w. (Inl fetch_failed, Suc w)),
      sdk_getOrCreateCollection = (\<lambda>c n w. (Inl fetch_failed, Suc w)),
      sdk_get = (\<lambda>col a w. (Inl fetch_failed, Suc w)),
      sdk_add = (\<lambda>col a w. (Inl fetch_failed, Suc w)),
      sdk_update = (\<lambda>col a w. (Inl fetch_failed, Suc w)),
      sdk_delete = (\<lambda>col ids w. (Inl fetch_failed, Suc w)),
      sdk_query = (\<lambda>col a w. (Inl fetch_failed, Suc w)),
      sdk_modify = (\<lambda>col n w. (Inl fetch_failed, Suc w)),
      sdk_createTenant = (\<lambda>a n w. (Inl fetch_failed, Suc w)),
      sdk_createDatabase = (\<lambda>a t n w. (Inl fetch_failed, Suc w)),
      sdk_deleteDatabase = (\<lambda>a t n w. (Inl fetch_failed, Suc w))\<rparr>"

text \<open>A facade after a successful \<^verbatim>\<open>connect({})\<close> to one of these stores.\<close>

definition connected_facade :: "nat facade" where
  "connected_facade =
     new_facade\<lparr>connectedF := True, sdkClientF := Some 1, adminClientF := Some 2\<rparr>"

definition no_result :: get_result where
  "no_result = \<lparr>res_ids = Some [], res_documents = Some [], res_metadatas = Some [],
                res_embeddings = Some []\<rparr>"

text \<open>The record \<^verbatim>\<open>{ document: 'hello' }\<close>.\<close>

definition hello_record :: ChromaRecord where
  "hello_record = \<lparr>rec_id = None, rec_document = Val ''hello'', rec_metadata = JUndefined,
                   rec_embedding = Undefined\<rparr>"

text \<open>A record with an id, metadata and an embedding, and no document.\<close>

definition tagged_record :: ChromaRecord where
  "tagged_record = \<lparr>rec_id = Some ''r1'', rec_document = Undefined,
                    rec_metadata = JObj [(''source'', JStr ''web'')],
                    rec_embedding = Val [1, 2]\<rparr>"

text \<open>A configuration with every field given.\<close>

definition remote_config :: config where
  "remote_config = \<lparr>cfg_host = Some ''db.example'', cfg_port = Some 8443, cfg_ssl = Some True,
                     cfg_tenant = Some ''acme'', cfg_database = Some ''main'',
                     cfg_apiKey = Some ''s3cret''\<rparr>"

text \<open>Three records, the second without a document, only two with metadata, none embedded.\<close>

definition abc_result :: get_result where
  "abc_result = \<lparr>res_ids = Some [''A'', ''B'', ''C''],
                 res_documents = Some [Val ''alpha'', Null, Val ''gamma''],
                 res_metadatas = Some [JObj [(''k'', JNum 1)], JNull],
                 res_embeddings = None\<rparr>"

text \<open>A listing where the name of the first collection is the id of the second.\<close>

definition clashing_cols :: "collection_item list" where
  "clashing_cols =
     [\<lparr>item_id = Val ''c'', item_name = Val ''a'', item_count = Val 2\<rparr>,
      \<lparr>item_id = Val ''a'', item_name = Val ''b'', item_count = Undefined\<rparr>]"

text \<open>The stored record \<^verbatim>\<open>r1\<close>, as \<^verbatim>\<open>get\<close> answers it.\<close>

definition stored_result :: get_result where
  "stored_result = \<lparr>res_ids = Some [''r1''], res_documents = Some [Val ''old''],
                    res_metadatas = Some [JNull], res_embeddings = Some [Val [3, 4]]\<rparr>"

text \<open>An edit of the document of \<^verbatim>\<open>r1\<close> that supplies no embedding.\<close>

definition edit_record :: ChromaRecord where
  "edit_record = \<lparr>rec_id = Some ''r1'', rec_document = Val ''new'', rec_metadata = JUndefined,
                  rec_embedding = Undefined\<rparr>"

section \<open>Running the combinators\<close>

lemmas io_defs = ret_def throw_def bind_def try_catch_def request_def thrown_def

lemmas call_defs = newClient_def newAdmin_def version_def getUserIdentity_def
  adminListDatabases_def clientListCollections_def clientCreateCollection_def
  clientDeleteCollection_def getCollection_def getOrCreateCollection_def colGet_def
  colAdd_def colUpdate_def colDelete_def colQuery_def colModify_def adminCreateTenant_def
  adminCreateDatabase_def adminDeleteDatabase_def scopedClient_def

lemmas js_defs = str_or_def num_or_def opt_str_or_def js_or_def nullish_def js_nullish_def
  index_def js_index_def or_empty_def

lemmas fixture_defs = stub_sdk_def down_sdk_def connected_facade_def new_facade_def
  no_result_def hello_record_def fetch_failed_def sdkArgsFor_def adminArgsFor_def

section \<open>addRecord\<close>

lemma addRecord_add_args:
  assumes "addRecord sdk this tenant database collection record generated w = (res, w', calls)"
      and "(ColAdd col a, out) \<in> set calls"
    shows "a = addArgs (str_or (rec_id record) generated) record"
  using assms
  by (auto simp: addRecord_def io_defs call_defs Let_def split: if_splits prod.splits sum.splits)

lemma addRecord_returns_after_add:
  assumes "addRecord sdk this tenant database collection record generated w =
             (Inr ident, w', calls)"
    shows "\<exists>col a. (ColAdd col a, None) \<in> set calls"
  using assms
  by (auto simp: addRecord_def io_defs call_defs Let_def split: if_splits prod.splits sum.splits)






lemma addArgs_ids: "add_ids (addArgs ident record) = [ident]"
  by (simp add: addArgs_def Let_def)

text \<open>The metadata key of the write, by the kind of value the record carries.\<close>

lemma addArgs_metadatas:
  "add_metadatas (addArgs ident record) =
     (if \<exists>n>0. object_keys_length (rec_metadata record) = Inr n
      then Some [rec_metadata record] else None)"
  by (cases "rec_metadata record") (auto simp: addArgs_def Let_def js_or_def)


lemma hello_run:
  "addRecord (stub_sdk [] no_result) connected_facade None None ''docs'' hello_record ''id_abc'' 0 =
     (Inr ''id_abc'', 3,
      [(NewClient \<lparr>args_host = ''localhost'', args_port = 8000, args_ssl = False,
                   args_tenant = None, args_database = None, args_headers = None\<rparr>, None),
       (GetOrCreateCollection 1 ''docs'', None),
       (ColAdd 3 \<lparr>add_ids = [''id_abc''], add_documents = [''hello''],
                  add_embeddings = [[0]], add_metadatas = None\<rparr>, None)])"
  by (simp add: addRecord_def io_defs call_defs fixture_defs js_defs addArgs_def Let_def
      embeddingToSend_def)





lemma tagged_run:
  "addRecord (stub_sdk [] no_result) connected_facade (Some ''t'') None ''docs'' tagged_record
     ''id_abc'' 0 =
     (Inr ''r1'', 3,
      [(NewClient \<lparr>args_host = ''localhost'', args_port = 8000, args_ssl = False,
                   args_tenant = Some ''t'', args_database = None, args_headers = None\<rparr>, None),
       (GetOrCreateCollection 1 ''docs'', None),
       (ColAdd 3 \<lparr>add_ids = [''r1''], add_documents = [''''],
                  add_embeddings = [[1, 2]],
                  add_metadatas = Some [JObj [(''source'', JStr ''web'')]]\<rparr>, None)])"
  by (simp add: addRecord_def io_defs call_defs fixture_defs js_defs addArgs_def Let_def
      embeddingToSend_def tagged_record_def)


text \<open>
  With the facade connected, the session built and the collection there, \<^verbatim>\<open>addRecord\<close>
  calls \<^verbatim>\<open>col.add\<close> with its \<^verbatim>\<open>addArgs\<close>, whatever that call then does.
\<close>

lemma addRecord_reaches_add:
  assumes "connectedF this"
    and "sdk_newClient sdk (sdkArgsFor this (Some \<lparr>sc_tenant = tenant, sc_database = database\<rparr>)) w
           = (Inr client, w1)"
    and "sdk_getOrCreateCollection sdk client collection w1 = (Inr col, w2)"
    and "addRecord sdk this tenant database collection record generated w = (res, w', calls)"
  shows "\<exists>out. (ColAdd col (addArgs (str_or (rec_id record) generated) record), out) \<in> set calls"
  using assms
  by (auto simp: addRecord_def io_defs call_defs Let_def split: prod.splits sum.splits)

text \<open>
  Claim C5. A \<^verbatim>\<open>col.add\<close> that \<^verbatim>\<open>addRecord\<close> sends has a \<^verbatim>\<open>metadatas\<close> field if and only if
  \<^verbatim>\<open>record.metadata\<close> has at least one key (by \<^verbatim>\<open>Object.keys\<close>), and the field then holds that
  metadata. For metadata that is absent or the empty mapping the field is left out; for
  a mapping with a key it is sent. On a connected facade, once the session and
  \<^verbatim>\<open>getOrCreateCollection\<close> have succeeded, such a write is sent.
\<close>

theorem addRecord_metadata_sent:
  assumes "addRecord sdk this tenant database collection record generated w = (res, w', calls)"
  shows "(\<forall>col a out. (ColAdd col a, out) \<in> set calls \<longrightarrow>
            (add_metadatas a \<noteq> None \<longleftrightarrow>
               (\<exists>n>0. object_keys_length (rec_metadata record) = Inr n)) \<and>
            (add_metadatas a \<noteq> None \<longrightarrow> add_metadatas a = Some [rec_metadata record]) \<and>
            (rec_metadata record = JUndefined \<longrightarrow> add_metadatas a = None) \<and>
            (rec_metadata record = JObj [] \<longrightarrow> add_metadatas a = None) \<and>
            (\<forall>kv kvs. rec_metadata record = JObj (kv # kvs) \<longrightarrow>
               add_metadatas a = Some [JObj (kv # kvs)])) \<and>
         (\<forall>ident. res = Inr ident \<longrightarrow> (\<exists>col a. (ColAdd col a, None) \<in> set calls)) \<and>
         (\<forall>client w1 col w2. connectedF this \<longrightarrow>
            sdk_newClient sdk
              (sdkArgsFor this (Some \<lparr>sc_tenant = tenant, sc_database = database\<rparr>)) w =
              (Inr client, w1) \<longrightarrow>
            sdk_getOrCreateCollection sdk client collection w1 = (Inr col, w2) \<longrightarrow>
            (\<exists>a out. (ColAdd col a, out) \<in> set calls \<and>
               add_metadatas a =
                 (if \<exists>n>0. object_keys_length (rec_metadata record) = Inr n
                  then Some [rec_metadata record] else None)))"
proof (intro conjI allI impI)
  fix col a out
  assume "(ColAdd col a, out) \<in> set calls"
  then have "a = addArgs (str_or (rec_id record) generated) record"
    using addRecord_add_args [OF assms] by blast
  then have meta: "add_metadatas a =
      (if \<exists>n>0. object_keys_length (rec_metadata record) = Inr n
       then Some [rec_metadata record] else None)"
    by (simp only: addArgs_metadatas)
  show "add_metadatas a \<noteq> None \<longleftrightarrow> (\<exists>n>0. object_keys_length (rec_metadata record) = Inr n)"
    by (simp add: meta)
  show "add_metadatas a = Some [rec_metadata record]" if "add_metadatas a \<noteq> None"
    using that by (simp add: meta split: if_splits)
  show "add_metadatas a = None" if "rec_metadata record = JUndefined"
    using that by (simp add: meta)
  show "add_metadatas a = None" if "rec_metadata record = JObj []"
    using that by (simp add: meta)
  show "add_metadatas a = Some [JObj (kv # kvs)]" if "rec_metadata record = JObj (kv # kvs)"
    for kv kvs
    using that by (simp add: meta)
next
  fix ident
  assume "res = Inr ident"
  with assms show "\<exists>col a. (ColAdd col a, None) \<in> set calls"
    by (simp add: addRecord_returns_after_add)
next
  fix client w1 col w2
  assume c: "connectedF this"
    and n: "sdk_newClient sdk
              (sdkArgsFor this (Some \<lparr>sc_tenant = tenant, sc_database = database\<rparr>)) w =
              (Inr client, w1)"
    and g: "sdk_getOrCreateCollection sdk client collection w1 = (Inr col, w2)"
  from addRecord_reaches_add [OF c n g assms]
  obtain out where
    "(ColAdd col (addArgs (str_or (rec_id record) generated) record), out) \<in> set calls"
    by blast
  then show "\<exists>a out. (ColAdd col a, out) \<in> set calls \<and>
               add_metadatas a =
                 (if \<exists>n>0. object_keys_length (rec_metadata record) = Inr n
                  then Some [rec_metadata record] else None)"
    using addArgs_metadatas by blast
qed

text \<open>
  Two runs of \<^verbatim>\<open>addRecord\<close>: metadata \<^verbatim>\<open>{ source: 'web' }\<close> is in the write, and a record
  without metadata is written without the field.
\<close>

theorem addRecord_metadata_sent_witness:
  "connectedF connected_facade \<and>
   rec_metadata tagged_record = JObj [(''source'', JStr ''web'')] \<and>
   addRecord (stub_sdk [] no_result) connected_facade (Some ''t'') None ''docs'' tagged_record
     ''id_abc'' 0 =
     (Inr ''r1'', 3,
      [(NewClient \<lparr>args_host = ''localhost'', args_port = 8000, args_ssl = False,
                   args_tenant = Some ''t'', args_database = None, args_headers = None\<rparr>, None),
       (GetOrCreateCollection 1 ''docs'', None),
       (ColAdd 3 \<lparr>add_ids = [''r1''], add_documents = [''''],
                  add_embeddings = [[1, 2]],
                  add_metadatas = Some [JObj [(''source'', JStr ''web'')]]\<rparr>, None)]) \<and>
   rec_metadata hello_record = JUndefined \<and>
   addRecord (stub_sdk [] no_result) connected_facade None None ''docs'' hello_record ''id_abc'' 0 =
     (Inr ''id_abc'', 3,
      [(NewClient \<lparr>args_host = ''localhost'', args_port = 8000, args_ssl = False,
                   args_tenant = None, args_database = None, args_headers = None\<rparr>, None),
       (GetOrCreateCollection 1 ''docs'', None),
       (ColAdd 3 \<lparr>add_ids = [''id_abc''], add_documents = [''hello''],
                  add_embeddings = [[0]], add_metadatas = None\<rparr>, None)]) \<and>
   (\<exists>a out. (ColAdd 3 a, out) \<in>
        set (snd (snd (addRecord (stub_sdk [] no_result) connected_facade (Some ''t'') None
                         ''docs'' tagged_record ''id_abc'' 0))) \<and>
      add_metadatas a = Some [JObj [(''source'', JStr ''web'')]])"
proof -
  have c: "connectedF connected_facade"
    by (simp add: connected_facade_def)
  have n: "sdk_newClient (stub_sdk [] no_result)
             (sdkArgsFor connected_facade (Some \<lparr>sc_tenant = Some ''t'', sc_database = None\<rparr>)) 0 =
           (Inr 1, 1)"
    by (simp add: stub_sdk_def)
  have g: "sdk_getOrCreateCollection (stub_sdk [] no_result) 1 ''docs'' 1 = (Inr 3, 2)"
    by (simp add: stub_sdk_def)
  have m: "rec_metadata tagged_record = JObj [(''source'', JStr ''web'')]"
    by (simp add: tagged_record_def)
  have h: "rec_metadata hello_record = JUndefined"
    by (simp add: hello_record_def)
  have keys: "\<exists>n>0. object_keys_length (rec_metadata tagged_record) = Inr n"
    by (simp add: m)
  note sent = addRecord_metadata_sent [OF tagged_run, THEN conjunct2, THEN conjunct2,
      rule_format, OF c n g]
  from sent keys m
  have "\<exists>a out. (ColAdd 3 a, out) \<in>
        set (snd (snd (addRecord (stub_sdk [] no_result) connected_facade (Some ''t'') None
                         ''docs'' tagged_record ''id_abc'' 0))) \<and>
      add_metadatas a = Some [JObj [(''source'', JStr ''web'')]]"
    by (simp add: tagged_run)
  with c m h show ?thesis
    by (simp add: tagged_run hello_run)
qed

lemmas this_defs = get_this_def modify_this_def lift_def

section \<open>connect\<close>

lemma adminArgsFor_sdkClient [simp]:
  "adminArgsFor (this\<lparr>sdkClientF := c\<rparr>) = adminArgsFor this"
  by (simp add: adminArgsFor_def)

text \<open>
  The two ways \<^verbatim>\<open>connect\<close> ends: all three calls returned, or one threw and the
  \<^verbatim>\<open>catch\<close> block ran.
\<close>

lemma connect_cases:
  assumes "connect sdk cfg (this, w) = (res, (this', w'), calls)"
  shows "(\<exists>c a. res = Inr True \<and>
            this' = this\<lparr>configF := cfg, sdkClientF := Some c, adminClientF := Some a,
                         connectedF := True\<rparr> \<and>
            calls = [(NewClient (sdkArgsFor (this\<lparr>configF := cfg\<rparr>) None), None),
                     (NewAdmin (adminArgsFor (this\<lparr>configF := cfg\<rparr>)), None),
                     (Version c, None)]) \<or>
         (\<exists>c e. res = Inr False \<and>
            this' = this\<lparr>configF := cfg, connectedF := False, sdkClientF := None,
                         adminClientF := None\<rparr> \<and>
            calls \<noteq> [] \<and> last calls = (c, Some e) \<and>
            (\<forall>x \<in> set (butlast calls). snd x = None))"
proof -
  let ?this1 = "this\<lparr>configF := cfg\<rparr>"
  obtain r1 w1 where nc: "sdk_newClient sdk (sdkArgsFor ?this1 None) w = (r1, w1)"
    by fastforce
  show ?thesis
  proof (cases r1)
    case (Inl e)
    with nc assms show ?thesis
      by (simp add: connect_def this_defs io_defs newClient_def) auto
  next
    case c: (Inr c)
    obtain r2 w2 where na: "sdk_newAdmin sdk (adminArgsFor ?this1) w1 = (r2, w2)"
      by fastforce
    show ?thesis
    proof (cases r2)
      case (Inl e)
      with nc c na assms show ?thesis
        by (simp add: connect_def this_defs io_defs newClient_def newAdmin_def) auto
    next
      case a: (Inr a)
      obtain r3 w3 where v: "sdk_version sdk c w2 = (r3, w3)"
        by fastforce
      show ?thesis
      proof (cases r3)
        case (Inl e)
        with nc c na a v assms show ?thesis
          by (simp add: connect_def this_defs io_defs newClient_def newAdmin_def version_def)
            auto
      next
        case (Inr s)
        with nc c na a v assms show ?thesis
          by (simp add: connect_def this_defs io_defs newClient_def newAdmin_def version_def)
            auto
      qed
    qed
  qed
qed

text \<open>
  Claim C8. \<^verbatim>\<open>connect\<close> never rejects: it resolves to a boolean, which is the facade's
  connected flag afterwards. When no SDK call threw (both constructions and the
  \<^verbatim>\<open>version()\<close> check) it resolves to true with both session objects set; when any of
  them threw it resolves to false, the flag is false and both session objects are
  cleared.
\<close>

theorem connect_never_raises:
  assumes "connect sdk cfg (this, w) = (res, (this', w'), calls)"
  shows "(\<exists>b. res = Inr b \<and> connectedF this' = b) \<and>
         ((\<forall>x \<in> set calls. snd x = None) \<longrightarrow>
            res = Inr True \<and> connectedF this' \<and>
            sdkClientF this' \<noteq> None \<and> adminClientF this' \<noteq> None \<and>
            map fst calls = [NewClient (sdkArgsFor (this\<lparr>configF := cfg\<rparr>) None),
                             NewAdmin (adminArgsFor (this\<lparr>configF := cfg\<rparr>)),
                             Version (the (sdkClientF this'))]) \<and>
         ((\<exists>c e. (c, Some e) \<in> set calls) \<longrightarrow>
            res = Inr False \<and> \<not> connectedF this' \<and>
            sdkClientF this' = None \<and> adminClientF this' = None) \<and>
         calls \<noteq> []"
proof -
  from connect_cases [OF assms] show ?thesis
  proof (elim disjE exE conjE)
    fix c a
    assume "res = Inr True"
      and "this' = this\<lparr>configF := cfg, sdkClientF := Some c, adminClientF := Some a,
                         connectedF := True\<rparr>"
      and "calls = [(NewClient (sdkArgsFor (this\<lparr>configF := cfg\<rparr>) None), None),
                    (NewAdmin (adminArgsFor (this\<lparr>configF := cfg\<rparr>)), None),
                    (Version c, None)]"
    then show ?thesis by auto
  next
    fix c e
    assume res: "res = Inr False"
      and this': "this' = this\<lparr>configF := cfg, connectedF := False, sdkClientF := None,
                         adminClientF := None\<rparr>"
      and ne: "calls \<noteq> []" and lst: "last calls = (c, Some e)"
    from ne lst have "(c, Some e) \<in> set calls"
      using last_in_set by metis
    then have "\<not> (\<forall>x \<in> set calls. snd x = None)" by force
    with res this' ne show ?thesis by auto
  qed
qed

lemma connect_down_run:
  "connect down_sdk remote_config (new_facade, 0) =
     (Inr False,
      (\<lparr>connectedF = False, configF = remote_config, sdkClientF = None, adminClientF = None\<rparr>,
       3),
      [(NewClient \<lparr>args_host = ''db.example'', args_port = 8443, args_ssl = True,
                   args_tenant = Some ''acme'', args_database = Some ''main'',
                   args_headers = Some [(''x-chroma-token'', ''s3cret'')]\<rparr>, None),
       (NewAdmin \<lparr>adm_host = ''db.example'', adm_port = 8443, adm_ssl = True,
                  adm_headers = Some [(''x-chroma-token'', ''s3cret'')]\<rparr>, None),
       (Version 1, Some (Error ''fetch failed''))])"
  by (simp add: connect_def this_defs io_defs newClient_def newAdmin_def version_def
      down_sdk_def new_facade_def fetch_failed_def sdkArgsFor_def adminArgsFor_def
      remote_config_def str_or_def num_or_def)

lemma connect_stub_run:
  "connect (stub_sdk [] no_result) remote_config (new_facade, 0) =
     (Inr True,
      (\<lparr>connectedF = True, configF = remote_config, sdkClientF = Some 1,
        adminClientF = Some 2\<rparr>, 3),
      [(NewClient \<lparr>args_host = ''db.example'', args_port = 8443, args_ssl = True,
                   args_tenant = Some ''acme'', args_database = Some ''main'',
                   args_headers = Some [(''x-chroma-token'', ''s3cret'')]\<rparr>, None),
       (NewAdmin \<lparr>adm_host = ''db.example'', adm_port = 8443, adm_ssl = True,
                  adm_headers = Some [(''x-chroma-token'', ''s3cret'')]\<rparr>, None),
       (Version 1, None)])"
  by (simp add: connect_def this_defs io_defs newClient_def newAdmin_def version_def
      stub_sdk_def new_facade_def sdkArgsFor_def adminArgsFor_def
      remote_config_def str_or_def num_or_def)

text \<open>A store that answers connects; a store that is down gives false and no session.\<close>

theorem connect_never_raises_witness:
  "fst (connect (stub_sdk [] no_result) remote_config (new_facade, 0)) = Inr True \<and>
   connectedF (fst (fst (snd (connect (stub_sdk [] no_result) remote_config (new_facade, 0))))) \<and>
   fst (connect down_sdk remote_config (new_facade, 0)) = Inr False \<and>
   sdkClientF (fst (fst (snd (connect down_sdk remote_config (new_facade, 0))))) = None \<and>
   adminClientF (fst (fst (snd (connect down_sdk remote_config (new_facade, 0))))) = None"
  using connect_never_raises [OF connect_stub_run] connect_never_raises [OF connect_down_run]
  by (simp add: connect_stub_run connect_down_run)

text \<open>
  Claim C9 as stated fails: a fresh facade holds the empty configuration, and after a
  failed \<^verbatim>\<open>connect\<close> it holds the configuration of the failed attempt.
\<close>

theorem connect_config_unchanged_counterexample:
  "fst (connect down_sdk remote_config (new_facade, 0)) = Inr False \<and>
   configF (fst (fst (snd (connect down_sdk remote_config (new_facade, 0))))) = remote_config \<and>
   configF (new_facade :: nat facade) \<noteq> remote_config"
  by (simp add: connect_down_run) (simp add: new_facade_def remote_config_def)

text \<open>
  Claim C9, amended. \<^verbatim>\<open>connect\<close> stores the supplied configuration before it tries the
  session, on success and on failure alike: after any call the stored configuration is
  the supplied one, and after a failed call the connected flag is false and both session
  objects are cleared.
\<close>

theorem connect_stores_config:
  assumes "connect sdk cfg (this, w) = (res, (this', w'), calls)"
  shows "configF this' = cfg \<and>
         (res = Inr False \<longrightarrow>
            \<not> connectedF this' \<and> sdkClientF this' = None \<and> adminClientF this' = None)"
  using connect_cases [OF assms] by auto

text \<open>The failed attempt above leaves its own configuration behind.\<close>

theorem connect_stores_config_witness:
  "configF (fst (fst (snd (connect down_sdk remote_config (new_facade, 0))))) = remote_config \<and>
   fst (connect down_sdk remote_config (new_facade, 0)) = Inr False \<and>
   \<not> connectedF (fst (fst (snd (connect down_sdk remote_config (new_facade, 0)))))"
  using connect_stores_config [OF connect_down_run]
  by (simp add: connect_down_run)

section \<open>A disconnected facade\<close>

text \<open>
  Claim C3. On a facade that is not connected, every read operation resolves to the
  empty array (\<^verbatim>\<open>getRecord\<close> to \<^verbatim>\<open>undefined\<close>) and every mutating operation rejects
  with \<^verbatim>\<open>Error('not connected')\<close>; none of them calls the SDK or changes the state
  behind it.
\<close>

theorem disconnected_facade:
  assumes "\<not> isConnected this"
  shows "listTenants sdk this w = (Inr [], w, []) \<and>
         listDatabases sdk this tenant' w = (Inr [], w, []) \<and>
         listCollections sdk this tenant database w = (Inr [], w, []) \<and>
         listRecords sdk this tenant database collection limit offset w = (Inr [], w, []) \<and>
         getRecord sdk this tenant database collection ident w = (Inr None, w, []) \<and>
         queryCollection sdk this tenant database collection opts w = (Inr (JArr []), w, []) \<and>
         addRecord sdk this tenant database collection record generated w =
           (Inl (Error ''not connected''), w, []) \<and>
         updateRecord sdk this tenant database collection record w =
           (Inl (Error ''not connected''), w, []) \<and>
         deleteRecord sdk this tenant database collection ident w =
           (Inl (Error ''not connected''), w, []) \<and>
         createCollection sdk this tenant database name w =
           (Inl (Error ''not connected''), w, []) \<and>
         deleteCollection sdk this tenant database name w =
           (Inl (Error ''not connected''), w, []) \<and>
         renameCollection sdk this tenant database name newName w =
           (Inl (Error ''not connected''), w, []) \<and>
         createTenant sdk this name w = (Inl (Error ''not connected''), w, []) \<and>
         createDatabase sdk this tname name w = (Inl (Error ''not connected''), w, []) \<and>
         deleteDatabase sdk this tname name w = (Inl (Error ''not connected''), w, [])"
proof -
  from assms have nc: "\<not> connectedF this"
    by (simp add: isConnected_def)
  have reads: "listTenants sdk this w = (Inr [], w, [])"
    "listDatabases sdk this tenant' w = (Inr [], w, [])"
    "listCollections sdk this tenant database w = (Inr [], w, [])"
    "listRecords sdk this tenant database collection limit offset w = (Inr [], w, [])"
    "getRecord sdk this tenant database collection ident w = (Inr None, w, [])"
    "queryCollection sdk this tenant database collection opts w = (Inr (JArr []), w, [])"
    using nc
    by (simp_all add: listTenants_def listDatabases_def listCollections_def listRecords_def
        getRecord_def queryCollection_def ret_def split: option.splits)
  have writes: "addRecord sdk this tenant database collection record generated w =
           (Inl (Error ''not connected''), w, [])"
    "updateRecord sdk this tenant database collection record w =
           (Inl (Error ''not connected''), w, [])"
    "deleteRecord sdk this tenant database collection ident w =
           (Inl (Error ''not connected''), w, [])"
    "createCollection sdk this tenant database name w =
           (Inl (Error ''not connected''), w, [])"
    "deleteCollection sdk this tenant database name w =
           (Inl (Error ''not connected''), w, [])"
    "renameCollection sdk this tenant database name newName w =
           (Inl (Error ''not connected''), w, [])"
    "createTenant sdk this name w = (Inl (Error ''not connected''), w, [])"
    "createDatabase sdk this tname name w = (Inl (Error ''not connected''), w, [])"
    "deleteDatabase sdk this tname name w = (Inl (Error ''not connected''), w, [])"
    using nc
    by (simp_all add: addRecord_def updateRecord_def deleteRecord_def createCollection_def
        deleteCollection_def renameCollection_def createTenant_def createDatabase_def
        deleteDatabase_def throw_def not_connected_def split: option.splits)
  from reads writes show ?thesis by simp
qed

text \<open>A facade that was never connected.\<close>

theorem disconnected_facade_witness:
  "\<not> isConnected (new_facade :: nat facade) \<and>
   listRecords down_sdk new_facade None None ''docs'' None None 0 = (Inr [], 0, []) \<and>
   getRecord down_sdk new_facade None None ''docs'' ''r1'' 0 = (Inr None, 0, []) \<and>
   addRecord down_sdk new_facade None None ''docs'' hello_record ''id_abc'' 0 =
     (Inl (Error ''not connected''), 0, []) \<and>
   createTenant down_sdk new_facade ''acme'' 0 = (Inl (Error ''not connected''), 0, [])"
proof -
  have nc: "\<not> isConnected (new_facade :: nat facade)"
    by (simp add: isConnected_def new_facade_def)
  from disconnected_facade [OF nc, where sdk = down_sdk and w = 0 and tenant = None
      and database = None and collection = "''docs''" and limit = None and offset = None
      and ident = "''r1''" and generated = "''id_abc''" and name = "''acme''"] nc
  show ?thesis
    by simp
qed

section \<open>listRecords\<close>

declare listRecords_loop.simps [simp del]

text \<open>The loop appends one record per remaining index.\<close>

lemma listRecords_loop_map:
  "listRecords_loop ids docs metas embs i out =
     out @ map (\<lambda>k. \<lparr>rec_id = Some (ids ! k),
                      rec_document = nullish (index docs k) Undefined,
                      rec_metadata = js_nullish (js_index metas k) JUndefined,
                      rec_embedding = nullish (index embs k) Undefined\<rparr>) [i..<length ids]"
proof (induction ids docs metas embs i out rule: listRecords_loop.induct)
  case (1 ids docs metas embs i out)
  show ?case
  proof (cases "i < length ids")
    case True
    then show ?thesis
      by (subst listRecords_loop.simps) (simp add: 1 upt_conv_Cons)
  next
    case False
    then show ?thesis
      by (subst listRecords_loop.simps) simp
  qed
qed

lemma nullish_index_entry: "nullish (index (or_empty arr) i) Undefined = entry_at arr i"
  by (simp add: nullish_def index_def or_empty_def entry_at_def split: option.splits opt.splits)

lemma js_nullish_index_metadata:
  "js_nullish (js_index (or_empty arr) i) JUndefined = metadata_at arr i"
  by (simp add: js_nullish_def js_index_def or_empty_def metadata_at_def
      split: option.splits jsval.splits)

lemma listRecords_run:
  assumes "connectedF this"
    and "sdk_newClient sdk (sdkArgsFor this (Some \<lparr>sc_tenant = tenant, sc_database = database\<rparr>)) w
           = (Inr client, w1)"
    and "sdk_getCollection sdk client collection w1 = (Inr col, w2)"
    and "sdk_get sdk col \<lparr>get_ids = None,
                          get_limit = Some (case limit of None \<Rightarrow> 50 | Some l \<Rightarrow> l),
                          get_offset = Some (case offset of None \<Rightarrow> 0 | Some k \<Rightarrow> k),
                          get_include = [''documents'', ''metadatas'', ''embeddings'']\<rparr> w2
           = (Inr res, w3)"
  shows "fst (listRecords sdk this tenant database collection limit offset w) =
           Inr (listRecords_loop (or_empty (res_ids res)) (or_empty (res_documents res))
                  (or_empty (res_metadatas res)) (or_empty (res_embeddings res)) 0 [])"
  using assms
  by (simp add: listRecords_def io_defs call_defs include_all_def Let_def)

text \<open>
  Claim C6. On a connected facade, when the session, \<^verbatim>\<open>getCollection\<close> and \<^verbatim>\<open>get\<close> succeed,
  \<^verbatim>\<open>listRecords\<close> resolves to one record per id of the result, in order: record \<open>i\<close> has
  the \<open>i\<close>-th id, and the \<open>i\<close>-th document, metadata and embedding, each absent when
  its array is missing, is too short, or holds \<^verbatim>\<open>null\<close> at \<open>i\<close>.
\<close>

theorem listRecords_positional:
  assumes "connectedF this"
    and "sdk_newClient sdk (sdkArgsFor this (Some \<lparr>sc_tenant = tenant, sc_database = database\<rparr>)) w
           = (Inr client, w1)"
    and "sdk_getCollection sdk client collection w1 = (Inr col, w2)"
    and "sdk_get sdk col \<lparr>get_ids = None,
                          get_limit = Some (case limit of None \<Rightarrow> 50 | Some l \<Rightarrow> l),
                          get_offset = Some (case offset of None \<Rightarrow> 0 | Some k \<Rightarrow> k),
                          get_include = [''documents'', ''metadatas'', ''embeddings'']\<rparr> w2
           = (Inr res, w3)"
    and "ids = (case res_ids res of None \<Rightarrow> [] | Some xs \<Rightarrow> xs)"
  shows "\<exists>out. fst (listRecords sdk this tenant database collection limit offset w) = Inr out \<and>
           length out = length ids \<and>
           (\<forall>i < length ids.
              rec_id (out ! i) = Some (ids ! i) \<and>
              rec_document (out ! i) = entry_at (res_documents res) i \<and>
              rec_metadata (out ! i) = metadata_at (res_metadatas res) i \<and>
              rec_embedding (out ! i) = entry_at (res_embeddings res) i)"
proof -
  have ids: "or_empty (res_ids res) = ids"
    using assms(5) by (simp add: or_empty_def)
  show ?thesis
    using listRecords_run [OF assms(1-4)]
    by (simp add: listRecords_loop_map ids nullish_index_entry js_nullish_index_metadata)
qed

lemma abc_run:
  "fst (listRecords (stub_sdk [] abc_result) connected_facade None None ''docs'' (Some 3) None 0) =
     Inr [\<lparr>rec_id = Some ''A'', rec_document = Val ''alpha'',
           rec_metadata = JObj [(''k'', JNum 1)], rec_embedding = Undefined\<rparr>,
          \<lparr>rec_id = Some ''B'', rec_document = Undefined,
           rec_metadata = JUndefined, rec_embedding = Undefined\<rparr>,
          \<lparr>rec_id = Some ''C'', rec_document = Val ''gamma'',
           rec_metadata = JUndefined, rec_embedding = Undefined\<rparr>]"
  by (simp add: listRecords_def io_defs call_defs fixture_defs js_defs abc_result_def Let_def
      listRecords_loop.simps include_all_def)

text \<open>Three ids against arrays with a \<^verbatim>\<open>null\<close>, a short array and a missing one.\<close>

theorem listRecords_positional_witness:
  "connectedF connected_facade \<and>
   fst (listRecords (stub_sdk [] abc_result) connected_facade None None ''docs'' (Some 3) None 0) =
     Inr [\<lparr>rec_id = Some ''A'', rec_document = Val ''alpha'',
           rec_metadata = JObj [(''k'', JNum 1)], rec_embedding = Undefined\<rparr>,
          \<lparr>rec_id = Some ''B'', rec_document = Undefined,
           rec_metadata = JUndefined, rec_embedding = Undefined\<rparr>,
          \<lparr>rec_id = Some ''C'', rec_document = Val ''gamma'',
           rec_metadata = JUndefined, rec_embedding = Undefined\<rparr>] \<and>
   entry_at (res_documents abc_result) 1 = Undefined \<and>
   metadata_at (res_metadatas abc_result) 2 = JUndefined"
proof -
  have c: "connectedF connected_facade"
    by (simp add: connected_facade_def)
  have n: "sdk_newClient (stub_sdk [] abc_result)
             (sdkArgsFor connected_facade (Some \<lparr>sc_tenant = None, sc_database = None\<rparr>)) 0 =
           (Inr 1, 1)"
    by (simp add: stub_sdk_def)
  have g: "sdk_getCollection (stub_sdk [] abc_result) 1 ''docs'' 1 = (Inr 3, 2)"
    by (simp add: stub_sdk_def)
  have r: "sdk_get (stub_sdk [] abc_result) 3
             \<lparr>get_ids = None,
                get_limit = Some (case Some 3 of None \<Rightarrow> 50 | Some l \<Rightarrow> l),
                get_offset = Some (case None of None \<Rightarrow> 0 | Some k \<Rightarrow> k),
                get_include = [''documents'', ''metadatas'', ''embeddings'']\<rparr> 2 =
           (Inr abc_result, 3)"
    by (simp add: stub_sdk_def)
  have i: "[''A'', ''B'', ''C''] = (case res_ids abc_result of None \<Rightarrow> [] | Some xs \<Rightarrow> xs)"
    by (simp add: abc_result_def)
  from listRecords_positional [OF c n g r i] c show ?thesis
    by (simp add: abc_run) (simp add: entry_at_def metadata_at_def abc_result_def)
qed

section \<open>resolveCollectionId\<close>

text \<open>The loop returns at the first item whose id or name is the input.\<close>

lemma resolve_loop_no_match:
  "\<forall>item \<in> set cols. item_id item \<noteq> Val s \<and> item_name item \<noteq> Val s \<Longrightarrow>
   resolve_loop cols s = None"
  by (induction cols) auto

lemma resolve_loop_first_match:
  "\<forall>item \<in> set pre. item_id item \<noteq> Val s \<and> item_name item \<noteq> Val s \<Longrightarrow>
   item_id item = Val s \<or> item_name item = Val s \<Longrightarrow>
   resolve_loop (pre @ item # post) s = Some (nullish (item_id item) (item_name item))"
  by (induction pre) auto

lemma resolveCollectionId_listing:
  assumes "connectedF this"
    and "sdk_newClient sdk (sdkArgsFor this (Some \<lparr>sc_tenant = tenant, sc_database = database\<rparr>)) w
           = (Inr client, w1)"
    and "sdk_listCollections sdk client w1 = (Inr cols, w2)"
  shows "fst (resolveCollectionId sdk this tenant database s w) =
           Inr (case resolve_loop cols s of None \<Rightarrow> Val s | Some v \<Rightarrow> v)"
  using assms
  by (simp add: resolveCollectionId_def io_defs call_defs split: option.splits)

lemma resolveCollectionId_lookup_fails:
  assumes "connectedF this"
    and "sdk_newClient sdk (sdkArgsFor this (Some \<lparr>sc_tenant = tenant, sc_database = database\<rparr>)) w
           = (r1, w1)"
    and "r1 = Inl e \<or>
         (\<exists>client w2. r1 = Inr client \<and> sdk_listCollections sdk client w1 = (Inl e, w2))"
  shows "fst (resolveCollectionId sdk this tenant database s w) = Inr (Val s)"
  using assms
  by (auto simp: resolveCollectionId_def io_defs call_defs)

text \<open>
  Claim C7 as stated fails: \<^verbatim>\<open>'a'\<close> is the id of the second collection of the listing,
  and it resolves to \<^verbatim>\<open>'c'\<close>, the id of the first, whose name is \<^verbatim>\<open>'a'\<close>.
\<close>

theorem resolveCollectionId_clash_counterexample:
  "item_id (clashing_cols ! 1) = Val ''a'' \<and>
   fst (resolveCollectionId (stub_sdk clashing_cols no_result) connected_facade None None ''a'' 0) =
     Inr (Val ''c'')"
  by (simp add: resolveCollectionId_def io_defs call_defs fixture_defs js_defs clashing_cols_def)

text \<open>
  Claim C7, amended. \<^verbatim>\<open>resolveCollectionId\<close> resolves to the id of the first collection
  of the listing whose id or name is the input (to the input itself when that collection
  has no id, or when the match is by id). It resolves to the input unchanged when no
  collection matches, when the session or the listing throws, and when the facade is
  not connected.
\<close>

theorem resolveCollectionId_first_match:
  assumes "sdk_newClient sdk (sdkArgsFor this (Some \<lparr>sc_tenant = tenant, sc_database = database\<rparr>)) w
             = (r1, w1)"
  shows "(\<not> connectedF this \<longrightarrow>
            resolveCollectionId sdk this tenant database s w = (Inr (Val s), w, [])) \<and>
         (connectedF this \<longrightarrow>
            (\<forall>e. r1 = Inl e \<longrightarrow>
               fst (resolveCollectionId sdk this tenant database s w) = Inr (Val s)) \<and>
            (\<forall>client e w2. r1 = Inr client \<longrightarrow>
               sdk_listCollections sdk client w1 = (Inl e, w2) \<longrightarrow>
               fst (resolveCollectionId sdk this tenant database s w) = Inr (Val s)) \<and>
            (\<forall>client cols w2. r1 = Inr client \<longrightarrow>
               sdk_listCollections sdk client w1 = (Inr cols, w2) \<longrightarrow>
               ((\<forall>item \<in> set cols. item_id item \<noteq> Val s \<and> item_name item \<noteq> Val s) \<longrightarrow>
                  fst (resolveCollectionId sdk this tenant database s w) = Inr (Val s)) \<and>
               (\<forall>pre item post i. cols = pre @ item # post \<longrightarrow>
                  (\<forall>x \<in> set pre. item_id x \<noteq> Val s \<and> item_name x \<noteq> Val s) \<longrightarrow>
                  item_id item = Val i \<longrightarrow> (item_name item = Val s \<or> i = s) \<longrightarrow>
                  fst (resolveCollectionId sdk this tenant database s w) = Inr (Val i)) \<and>
               (\<forall>pre item post. cols = pre @ item # post \<longrightarrow>
                  (\<forall>x \<in> set pre. item_id x \<noteq> Val s \<and> item_name x \<noteq> Val s) \<longrightarrow>
                  item_id item \<in> {Undefined, Null} \<longrightarrow> item_name item = Val s \<longrightarrow>
                  fst (resolveCollectionId sdk this tenant database s w) = Inr (Val s))))"
proof (intro conjI impI allI)
  assume "\<not> connectedF this"
  then show "resolveCollectionId sdk this tenant database s w = (Inr (Val s), w, [])"
    by (simp add: resolveCollectionId_def ret_def)
next
  fix e
  assume "connectedF this" "r1 = Inl e"
  then show "fst (resolveCollectionId sdk this tenant database s w) = Inr (Val s)"
    using resolveCollectionId_lookup_fails [OF _ assms] by blast
next
  fix client e w2
  assume "connectedF this" "r1 = Inr client" "sdk_listCollections sdk client w1 = (Inl e, w2)"
  then show "fst (resolveCollectionId sdk this tenant database s w) = Inr (Val s)"
    using resolveCollectionId_lookup_fails [OF _ assms] by blast
next
  fix client cols w2
  assume c: "connectedF this" and r: "r1 = Inr client"
    and l: "sdk_listCollections sdk client w1 = (Inr cols, w2)"
    and "\<forall>item \<in> set cols. item_id item \<noteq> Val s \<and> item_name item \<noteq> Val s"
  then show "fst (resolveCollectionId sdk this tenant database s w) = Inr (Val s)"
    using resolveCollectionId_listing [OF c assms [unfolded r] l]
    by (simp add: resolve_loop_no_match)
next
  fix client cols w2 pre item post i
  assume c: "connectedF this" and r: "r1 = Inr client"
    and l: "sdk_listCollections sdk client w1 = (Inr cols, w2)"
    and cols: "cols = pre @ item # post"
    and pre: "\<forall>x \<in> set pre. item_id x \<noteq> Val s \<and> item_name x \<noteq> Val s"
    and i: "item_id item = Val i" and m: "item_name item = Val s \<or> i = s"
  from i m have "item_id item = Val s \<or> item_name item = Val s" by auto
  from resolve_loop_first_match [OF pre this] i
  have "resolve_loop cols s = Some (Val i)"
    by (simp add: cols nullish_def)
  then show "fst (resolveCollectionId sdk this tenant database s w) = Inr (Val i)"
    using resolveCollectionId_listing [OF c assms [unfolded r] l] by simp
next
  fix client cols w2 pre item post
  assume c: "connectedF this" and r: "r1 = Inr client"
    and l: "sdk_listCollections sdk client w1 = (Inr cols, w2)"
    and cols: "cols = pre @ item # post"
    and pre: "\<forall>x \<in> set pre. item_id x \<noteq> Val s \<and> item_name x \<noteq> Val s"
    and i: "item_id item \<in> {Undefined, Null}" and m: "item_name item = Val s"
  from m have "item_id item = Val s \<or> item_name item = Val s" by simp
  from resolve_loop_first_match [OF pre this] i m
  have "resolve_loop cols s = Some (Val s)"
    by (auto simp: cols nullish_def)
  then show "fst (resolveCollectionId sdk this tenant database s w) = Inr (Val s)"
    using resolveCollectionId_listing [OF c assms [unfolded r] l] by simp
qed

text \<open>A name resolves to its collection's id; an unknown value to itself.\<close>

theorem resolveCollectionId_first_match_witness:
  "connectedF connected_facade \<and>
   fst (resolveCollectionId (stub_sdk clashing_cols no_result) connected_facade None None ''b'' 0) =
     Inr (Val ''a'') \<and>
   fst (resolveCollectionId (stub_sdk clashing_cols no_result) connected_facade None None ''zzz'' 0) =
     Inr (Val ''zzz'') \<and>
   resolveCollectionId down_sdk new_facade None None ''b'' 0 = (Inr (Val ''b''), 0, [])"
proof -
  have c: "connectedF connected_facade"
    by (simp add: connected_facade_def)
  have n: "sdk_newClient (stub_sdk clashing_cols no_result)
             (sdkArgsFor connected_facade (Some \<lparr>sc_tenant = None, sc_database = None\<rparr>)) 0 =
           (Inr 1, 1)"
    by (simp add: stub_sdk_def)
  have l: "sdk_listCollections (stub_sdk clashing_cols no_result) 1 1 = (Inr clashing_cols, 2)"
    by (simp add: stub_sdk_def)
  have split: "clashing_cols =
      [\<lparr>item_id = Val ''c'', item_name = Val ''a'', item_count = Val 2\<rparr>] @
      \<lparr>item_id = Val ''a'', item_name = Val ''b'', item_count = Undefined\<rparr> # []"
    by (simp add: clashing_cols_def)
  have none: "\<forall>item \<in> set clashing_cols. item_id item \<noteq> Val ''zzz'' \<and> item_name item \<noteq> Val ''zzz''"
    by (simp add: clashing_cols_def)
  have d: "\<not> connectedF (new_facade :: nat facade)"
    by (simp add: new_facade_def)
  have nd: "sdk_newClient down_sdk
             (sdkArgsFor new_facade (Some \<lparr>sc_tenant = None, sc_database = None\<rparr>)) 0 =
           (Inr 1, 1)"
    by (simp add: down_sdk_def)
  have b: "fst (resolveCollectionId (stub_sdk clashing_cols no_result) connected_facade None None
             ''b'' 0) = Inr (Val ''a'')"
  proof -
    from resolveCollectionId_first_match [OF n, of "''b''"] c l
    have first: "\<And>pre item post i. clashing_cols = pre @ item # post \<Longrightarrow>
        \<forall>x \<in> set pre. item_id x \<noteq> Val ''b'' \<and> item_name x \<noteq> Val ''b'' \<Longrightarrow>
        item_id item = Val i \<Longrightarrow> item_name item = Val ''b'' \<or> i = ''b'' \<Longrightarrow>
        fst (resolveCollectionId (stub_sdk clashing_cols no_result) connected_facade None None
               ''b'' 0) = Inr (Val i)"
      by blast
    show ?thesis
      by (rule first [OF split]) simp_all
  qed
  have z: "fst (resolveCollectionId (stub_sdk clashing_cols no_result) connected_facade None None
             ''zzz'' 0) = Inr (Val ''zzz'')"
    using resolveCollectionId_first_match [OF n, of "''zzz''"] c l none by simp
  have e: "resolveCollectionId down_sdk new_facade None None ''b'' 0 = (Inr (Val ''b''), 0, [])"
    using resolveCollectionId_first_match [OF nd, of "''b''"] d by simp
  from c b z e show ?thesis by simp
qed

section \<open>updateRecord\<close>

text \<open>\<^verbatim>\<open>getRecord\<close> only reads.\<close>

lemma getRecord_no_update:
  assumes "getRecord sdk this tenant database collection ident w = (r, w', calls)"
  shows "(ColUpdate col a, out) \<notin> set calls"
  using assms
  by (auto simp: getRecord_def io_defs call_defs Let_def
      split: if_splits prod.splits sum.splits)

lemma updateArgs_fields:
  "upd_ids (updateArgs record) = [rec_id record]"
  "upd_documents (updateArgs record) =
     (if rec_document record = Undefined then None else Some [rec_document record])"
  "upd_metadatas (updateArgs record) =
     (if rec_metadata record = JUndefined then None else Some [rec_metadata record])"
  "upd_embeddings (updateArgs record) = None"
  by (simp_all add: updateArgs_def Let_def)

lemma withEmbedding_fields:
  "upd_ids (withEmbedding args e) = upd_ids args"
  "upd_documents (withEmbedding args e) = upd_documents args"
  "upd_metadatas (withEmbedding args e) = upd_metadatas args"
  "upd_embeddings (withEmbedding args e) =
     (case e of Val xs \<Rightarrow> if xs \<noteq> [] then Some [xs] else upd_embeddings args
      | _ \<Rightarrow> upd_embeddings args)"
  by (simp_all add: withEmbedding_def split: opt.splits)

text \<open>
  Once the session and the collection are there, \<^verbatim>\<open>updateRecord\<close> ends with its one
  \<^verbatim>\<open>col.update\<close>, and resolves or rejects as that call does.
\<close>

lemma updateRecord_sends:
  assumes conn: "connectedF this"
    and nc: "sdk_newClient sdk (sdkArgsFor this (Some \<lparr>sc_tenant = tenant, sc_database = database\<rparr>)) w
           = (Inr client, w1)"
    and gc: "sdk_getCollection sdk client collection w1 = (Inr col, w2)"
    and run: "updateRecord sdk this tenant database collection record w = (res, w', calls)"
    and a: "a = (if nonEmptyArray (rec_embedding record)
                 then withEmbedding (updateArgs record) (rec_embedding record)
                 else (case rec_id record of
                         None \<Rightarrow> updateArgs record
                       | Some ident \<Rightarrow>
                           if ident = [] then updateArgs record
                           else (case fst (getRecord sdk this tenant database collection ident w2) of
                                   Inr (Some r) \<Rightarrow> withEmbedding (updateArgs record) (rec_embedding r)
                                 | _ \<Rightarrow> updateArgs record)))"
  shows "\<exists>out pre. calls = pre @ [(ColUpdate col a, out)] \<and>
           (\<forall>c' a' o'. (ColUpdate c' a', o') \<notin> set pre) \<and>
           (res = (case out of None \<Rightarrow> Inr True | Some e \<Rightarrow> Inl e))"
proof -
  let ?pre = "[(NewClient (sdkArgsFor this (Some \<lparr>sc_tenant = tenant, sc_database = database\<rparr>)), None),
               (GetCollection client collection, None)]"
  show ?thesis
  proof (cases "nonEmptyArray (rec_embedding record)")
    case True
    obtain ru w3 where up: "sdk_update sdk col a w2 = (ru, w3)"
      by fastforce
    have "calls = ?pre @ [(ColUpdate col a, thrown ru)] \<and>
          res = (case thrown ru of None \<Rightarrow> Inr True | Some e \<Rightarrow> Inl e)"
      using run conn nc gc up True a
      by (cases ru) (auto simp: updateRecord_def io_defs call_defs Let_def)
    then show ?thesis
      by (intro exI [of _ "thrown ru"] exI [of _ ?pre]) simp
  next
    case False
    show ?thesis
    proof (cases "\<exists>ident. rec_id record = Some ident \<and> ident \<noteq> []")
      case noid: False
      obtain ru w3 where up: "sdk_update sdk col a w2 = (ru, w3)"
        by fastforce
      have "calls = ?pre @ [(ColUpdate col a, thrown ru)] \<and>
            res = (case thrown ru of None \<Rightarrow> Inr True | Some e \<Rightarrow> Inl e)"
        using run conn nc gc up False noid a
        by (cases ru; cases "rec_id record")
          (auto simp: updateRecord_def io_defs call_defs Let_def)
      then show ?thesis
        by (intro exI [of _ "thrown ru"] exI [of _ ?pre]) simp
    next
      case True
      then obtain ident where ident: "rec_id record = Some ident" "ident \<noteq> []"
        by blast
      obtain rg w3 tg where gr:
        "getRecord sdk this tenant database collection ident w2 = (rg, w3, tg)"
        by (metis prod_cases3)
      obtain ru w4 where up: "sdk_update sdk col a w3 = (ru, w4)"
        by fastforce
      have "calls = (?pre @ tg) @ [(ColUpdate col a, thrown ru)] \<and>
            res = (case thrown ru of None \<Rightarrow> Inr True | Some e \<Rightarrow> Inl e)"
        using run conn nc gc up False ident gr a
        by (cases ru; cases rg; cases "projr rg")
          (auto simp: updateRecord_def io_defs call_defs Let_def)
      moreover have "\<forall>c' a' o'. (ColUpdate c' a', o') \<notin> set (?pre @ tg)"
        using getRecord_no_update [OF gr] by simp
      ultimately show ?thesis
        by (intro exI [of _ "thrown ru"] exI [of _ "?pre @ tg"]) simp
    qed
  qed
qed

lemma effective_embedding_sent:
  "upd_embeddings
     (if nonEmptyArray supplied then withEmbedding (updateArgs record) supplied
      else withEmbedding (updateArgs record) existing) =
   map_option (\<lambda>e. [e]) (effective_embedding supplied existing)"
  by (simp add: nonEmptyArray_def effective_embedding_def withEmbedding_fields updateArgs_fields
      split: opt.splits)

text \<open>
  Claim C2. On a connected facade, when the session and \<^verbatim>\<open>getCollection\<close> succeed,
  \<^verbatim>\<open>updateRecord\<close> sends exactly one \<^verbatim>\<open>col.update\<close>. Its \<^verbatim>\<open>embeddings\<close> field follows the
  three tiers: the supplied \<^verbatim>\<open>record.embedding\<close> when that is a non-empty array; otherwise
  the embedding of the record that \<^verbatim>\<open>getRecord\<close> resolves to for a non-empty \<^verbatim>\<open>record.id\<close>,
  when that embedding is a non-empty array; otherwise the field is left out (also when
  the record has no id, so that nothing is fetched). The document and the metadata are
  sent as they are when they are not \<^verbatim>\<open>undefined\<close>, and left out otherwise.
\<close>

theorem updateRecord_embedding_policy:
  assumes conn: "connectedF this"
    and nc: "sdk_newClient sdk (sdkArgsFor this (Some \<lparr>sc_tenant = tenant, sc_database = database\<rparr>)) w
           = (Inr client, w1)"
    and gc: "sdk_getCollection sdk client collection w1 = (Inr col, w2)"
    and run: "updateRecord sdk this tenant database collection record w = (res, w', calls)"
    and existing: "existing =
           (case rec_id record of
              None \<Rightarrow> Undefined
            | Some ident \<Rightarrow>
                if ident = [] then Undefined
                else (case fst (getRecord sdk this tenant database collection ident w2) of
                        Inr (Some r) \<Rightarrow> rec_embedding r
                      | _ \<Rightarrow> Undefined))"
  shows "\<exists>a out pre.
           calls = pre @ [(ColUpdate col a, out)] \<and>
           (\<forall>c' a' o'. (ColUpdate c' a', o') \<notin> set pre) \<and>
           upd_ids a = [rec_id record] \<and>
           upd_documents a =
             (if rec_document record = Undefined then None else Some [rec_document record]) \<and>
           upd_metadatas a =
             (if rec_metadata record = JUndefined then None else Some [rec_metadata record]) \<and>
           upd_embeddings a =
             map_option (\<lambda>e. [e]) (effective_embedding (rec_embedding record) existing) \<and>
           (\<forall>e. rec_embedding record = Val e \<longrightarrow> e \<noteq> [] \<longrightarrow> upd_embeddings a = Some [e]) \<and>
           (\<forall>e. rec_embedding record \<in> {Undefined, Null, Val []} \<longrightarrow> existing = Val e \<longrightarrow>
                e \<noteq> [] \<longrightarrow> upd_embeddings a = Some [e]) \<and>
           (rec_embedding record \<in> {Undefined, Null, Val []} \<longrightarrow>
              existing \<in> {Undefined, Null, Val []} \<longrightarrow> upd_embeddings a = None)"
proof -
  define a where "a =
    (if nonEmptyArray (rec_embedding record)
     then withEmbedding (updateArgs record) (rec_embedding record)
     else (case rec_id record of
             None \<Rightarrow> updateArgs record
           | Some ident \<Rightarrow>
               if ident = [] then updateArgs record
               else (case fst (getRecord sdk this tenant database collection ident w2) of
                       Inr (Some r) \<Rightarrow> withEmbedding (updateArgs record) (rec_embedding r)
                     | _ \<Rightarrow> updateArgs record)))"
  have undefined: "withEmbedding (updateArgs record) Undefined = updateArgs record"
    by (simp add: withEmbedding_def)
  have a_alt: "a = (if nonEmptyArray (rec_embedding record)
                    then withEmbedding (updateArgs record) (rec_embedding record)
                    else withEmbedding (updateArgs record) existing)"
    unfolding a_def existing
    by (simp add: undefined split: option.splits sum.splits)
  have ids: "upd_ids a = [rec_id record]"
    and docs: "upd_documents a =
             (if rec_document record = Undefined then None else Some [rec_document record])"
    and metas: "upd_metadatas a =
             (if rec_metadata record = JUndefined then None else Some [rec_metadata record])"
    by (simp_all add: a_alt updateArgs_fields withEmbedding_fields)
  have emb: "upd_embeddings a =
      map_option (\<lambda>e. [e]) (effective_embedding (rec_embedding record) existing)"
    unfolding a_alt by (rule effective_embedding_sent)
  have t1: "\<forall>e. rec_embedding record = Val e \<longrightarrow> e \<noteq> [] \<longrightarrow> upd_embeddings a = Some [e]"
    by (simp add: emb effective_embedding_def)
  have t2: "\<forall>e. rec_embedding record \<in> {Undefined, Null, Val []} \<longrightarrow> existing = Val e \<longrightarrow>
                e \<noteq> [] \<longrightarrow> upd_embeddings a = Some [e]"
    by (auto simp: emb effective_embedding_def)
  have t3: "rec_embedding record \<in> {Undefined, Null, Val []} \<longrightarrow>
              existing \<in> {Undefined, Null, Val []} \<longrightarrow> upd_embeddings a = None"
    by (auto simp: emb effective_embedding_def)
  from updateRecord_sends [OF conn nc gc run a_def]
  obtain out pre where "calls = pre @ [(ColUpdate col a, out)]"
    and "\<forall>c' a' o'. (ColUpdate c' a', o') \<notin> set pre"
    by blast
  with ids docs metas emb t1 t2 t3 show ?thesis
    by blast
qed

lemma tagged_update_run:
  "updateRecord (stub_sdk [] stored_result) connected_facade None None ''docs'' tagged_record 0 =
     (Inr True, 3,
      [(NewClient \<lparr>args_host = ''localhost'', args_port = 8000, args_ssl = False,
                   args_tenant = None, args_database = None, args_headers = None\<rparr>, None),
       (GetCollection 1 ''docs'', None),
       (ColUpdate 3 \<lparr>upd_ids = [Some ''r1''], upd_documents = None,
                     upd_metadatas = Some [JObj [(''source'', JStr ''web'')]],
                     upd_embeddings = Some [[1, 2]]\<rparr>, None)])"
  by (simp add: updateRecord_def io_defs call_defs fixture_defs js_defs updateArgs_def
      withEmbedding_def nonEmptyArray_def tagged_record_def Let_def)

lemma edit_preserving_run:
  "updateRecord (stub_sdk [] stored_result) connected_facade None None ''docs'' edit_record 0 =
     (Inr True, 6,
      [(NewClient \<lparr>args_host = ''localhost'', args_port = 8000, args_ssl = False,
                   args_tenant = None, args_database = None, args_headers = None\<rparr>, None),
       (GetCollection 1 ''docs'', None),
       (NewClient \<lparr>args_host = ''localhost'', args_port = 8000, args_ssl = False,
                   args_tenant = None, args_database = None, args_headers = None\<rparr>, None),
       (GetCollection 1 ''docs'', None),
       (ColGet 3 \<lparr>get_ids = Some [''r1''], get_limit = None, get_offset = None,
                  get_include = [''documents'', ''metadatas'', ''embeddings'']\<rparr>, None),
       (ColUpdate 3 \<lparr>upd_ids = [Some ''r1''], upd_documents = Some [Val ''new''],
                     upd_metadatas = None, upd_embeddings = Some [[3, 4]]\<rparr>, None)])"
  by (simp add: updateRecord_def getRecord_def io_defs call_defs fixture_defs js_defs
      updateArgs_def withEmbedding_def nonEmptyArray_def edit_record_def stored_result_def
      include_all_def Let_def)

lemma edit_omitting_run:
  "updateRecord (stub_sdk [] no_result) connected_facade None None ''docs'' edit_record 0 =
     (Inr True, 6,
      [(NewClient \<lparr>args_host = ''localhost'', args_port = 8000, args_ssl = False,
                   args_tenant = None, args_database = None, args_headers = None\<rparr>, None),
       (GetCollection 1 ''docs'', None),
       (NewClient \<lparr>args_host = ''localhost'', args_port = 8000, args_ssl = False,
                   args_tenant = None, args_database = None, args_headers = None\<rparr>, None),
       (GetCollection 1 ''docs'', None),
       (ColGet 3 \<lparr>get_ids = Some [''r1''], get_limit = None, get_offset = None,
                  get_include = [''documents'', ''metadatas'', ''embeddings'']\<rparr>, None),
       (ColUpdate 3 \<lparr>upd_ids = [Some ''r1''], upd_documents = Some [Val ''new''],
                     upd_metadatas = None, upd_embeddings = None\<rparr>, None)])"
  by (simp add: updateRecord_def getRecord_def io_defs call_defs fixture_defs js_defs
      updateArgs_def withEmbedding_def nonEmptyArray_def edit_record_def
      include_all_def Let_def)

text \<open>One update for each tier: supplied, preserved from the stored record, left out.\<close>

theorem updateRecord_embedding_policy_witness:
  "connectedF connected_facade \<and>
   upd_embeddings \<lparr>upd_ids = [Some ''r1''], upd_documents = None,
                   upd_metadatas = Some [JObj [(''source'', JStr ''web'')]],
                   upd_embeddings = Some [[1, 2]]\<rparr> =
     map_option (\<lambda>e. [e]) (effective_embedding (rec_embedding tagged_record) (Val [3, 4])) \<and>
   upd_embeddings \<lparr>upd_ids = [Some ''r1''], upd_documents = Some [Val ''new''],
                   upd_metadatas = None, upd_embeddings = Some [[3, 4]]\<rparr> =
     map_option (\<lambda>e. [e]) (effective_embedding (rec_embedding edit_record) (Val [3, 4])) \<and>
   upd_embeddings \<lparr>upd_ids = [Some ''r1''], upd_documents = Some [Val ''new''],
                   upd_metadatas = None, upd_embeddings = None\<rparr> =
     map_option (\<lambda>e. [e]) (effective_embedding (rec_embedding edit_record) Undefined) \<and>
   fst (updateRecord (stub_sdk [] stored_result) connected_facade None None ''docs''
          edit_record 0) = Inr True"
proof -
  have c: "connectedF connected_facade"
    by (simp add: connected_facade_def)
  have n: "sdk_newClient (stub_sdk [] res)
             (sdkArgsFor connected_facade (Some \<lparr>sc_tenant = None, sc_database = None\<rparr>)) 0 =
           (Inr 1, 1)" for res
    by (simp add: stub_sdk_def)
  have g: "sdk_getCollection (stub_sdk [] res) 1 ''docs'' 1 = (Inr 3, 2)" for res
    by (simp add: stub_sdk_def)
  have e1: "Val [3, 4] =
      (case rec_id tagged_record of
         None \<Rightarrow> Undefined
       | Some ident \<Rightarrow>
           if ident = [] then Undefined
           else (case fst (getRecord (stub_sdk [] stored_result) connected_facade None None
                             ''docs'' ident 2) of
                   Inr (Some r) \<Rightarrow> rec_embedding r
                 | _ \<Rightarrow> Undefined))"
    by (simp add: getRecord_def io_defs call_defs fixture_defs js_defs tagged_record_def
        stored_result_def include_all_def Let_def)
  have e2: "Val [3, 4] =
      (case rec_id edit_record of
         None \<Rightarrow> Undefined
       | Some ident \<Rightarrow>
           if ident = [] then Undefined
           else (case fst (getRecord (stub_sdk [] stored_result) connected_facade None None
                             ''docs'' ident 2) of
                   Inr (Some r) \<Rightarrow> rec_embedding r
                 | _ \<Rightarrow> Undefined))"
    by (simp add: getRecord_def io_defs call_defs fixture_defs js_defs edit_record_def
        stored_result_def include_all_def Let_def)
  have e3: "Undefined =
      (case rec_id edit_record of
         None \<Rightarrow> Undefined
       | Some ident \<Rightarrow>
           if ident = [] then Undefined
           else (case fst (getRecord (stub_sdk [] no_result) connected_facade None None
                             ''docs'' ident 2) of
                   Inr (Some r) \<Rightarrow> rec_embedding r
                 | _ \<Rightarrow> Undefined))"
    by (simp add: getRecord_def io_defs call_defs fixture_defs js_defs edit_record_def
        include_all_def Let_def)
  from updateRecord_embedding_policy [OF c n g tagged_update_run e1]
    updateRecord_embedding_policy [OF c n g edit_preserving_run e2]
    updateRecord_embedding_policy [OF c n g edit_omitting_run e3] c
  show ?thesis
    by (simp add: edit_preserving_run)
qed

section \<open>Failures of the store\<close>

lemma threw_iff: "threw calls e \<longleftrightarrow> (\<exists>c. (c, Some e) \<in> set calls)"
  by (force simp: threw_def)

lemma request_threw_iff:
  "request_threw calls e \<longleftrightarrow> (\<exists>c. (c, Some e) \<in> set calls \<and> \<not> is_construction c)"
  by (force simp: request_threw_def)

text \<open>
  One lemma per operation, on a connected facade: what it resolves to or rejects with
  once an SDK call has thrown.
\<close>

lemma listTenants_failure:
  assumes "connectedF this"
    and "listTenants sdk this w = (res, w', calls)"
    and "threw calls e"
  shows "res = Inr [str_or (cfg_tenant (configF this)) ''default_tenant'']"
  using assms
  by (auto simp: threw_iff listTenants_def io_defs call_defs
      split: if_splits prod.splits sum.splits option.splits)

lemma listDatabases_failure:
  assumes "connectedF this"
    and "listDatabases sdk this tenant' w = (res, w', calls)"
    and "threw calls e"
  shows "res = Inr []"
  using assms
  by (auto simp: threw_iff listDatabases_def io_defs call_defs Let_def
      split: if_splits prod.splits sum.splits option.splits)

lemma listCollections_failure:
  assumes "connectedF this"
    and "listCollections sdk this tenant database w = (res, w', calls)"
    and "threw calls e"
  shows "res = Inr []"
  using assms
  by (auto simp: threw_iff listCollections_def io_defs call_defs
      split: if_splits prod.splits sum.splits)

lemma resolveCollectionId_failure:
  assumes "connectedF this"
    and "resolveCollectionId sdk this tenant database s w = (res, w', calls)"
    and "threw calls e"
  shows "res = Inr (Val s)"
  using assms
  by (auto simp: threw_iff resolveCollectionId_def io_defs call_defs
      split: if_splits prod.splits sum.splits option.splits)

lemma listRecords_failure:
  assumes "connectedF this"
    and "listRecords sdk this tenant database collection limit offset w = (res, w', calls)"
    and "request_threw calls e"
  shows "res = Inr []"
  using assms
  by (auto simp: request_threw_iff listRecords_def io_defs call_defs Let_def
      split: if_splits prod.splits sum.splits)

lemma getRecord_failure:
  assumes "connectedF this"
    and "getRecord sdk this tenant database collection ident w = (res, w', calls)"
    and "request_threw calls e"
  shows "res = Inr None"
  using assms
  by (auto simp: request_threw_iff getRecord_def io_defs call_defs Let_def
      split: if_splits prod.splits sum.splits)

lemma queryCollection_failure:
  assumes "connectedF this"
    and "queryCollection sdk this tenant database collection opts w = (res, w', calls)"
    and "request_threw calls e"
  shows "res = Inr (JArr [])"
  using assms
  by (auto simp: request_threw_iff queryCollection_def io_defs call_defs Let_def
      split: if_splits prod.splits sum.splits)

lemma createCollection_failure:
  assumes "connectedF this"
    and "createCollection sdk this tenant database name w = (res, w', calls)"
    and "threw calls e"
  shows "res = Inl e"
  using assms
  by (auto simp: threw_iff createCollection_def io_defs call_defs
      split: if_splits prod.splits sum.splits)

lemma deleteCollection_failure:
  assumes "connectedF this"
    and "deleteCollection sdk this tenant database name w = (res, w', calls)"
    and "threw calls e"
  shows "res = Inl e"
  using assms
  by (auto simp: threw_iff deleteCollection_def io_defs call_defs
      split: if_splits prod.splits sum.splits)

lemma renameCollection_failure:
  assumes "connectedF this"
    and "renameCollection sdk this tenant database name newName w = (res, w', calls)"
    and "threw calls e"
  shows "res = Inl e"
  using assms
  by (auto simp: threw_iff renameCollection_def io_defs call_defs
      split: if_splits prod.splits sum.splits)

lemma addRecord_failure:
  assumes "connectedF this"
    and "addRecord sdk this tenant database collection record generated w = (res, w', calls)"
    and "threw calls e"
  shows "res = Inl e"
  using assms
  by (auto simp: threw_iff addRecord_def io_defs call_defs Let_def
      split: if_splits prod.splits sum.splits)

lemma updateRecord_failure:
  assumes conn: "connectedF this"
    and run: "updateRecord sdk this tenant database collection record w = (res, w', calls)"
    and last: "last_threw calls e"
  shows "res = Inl e"
proof -
  obtain r1 w1 where nc:
    "sdk_newClient sdk (sdkArgsFor this (Some \<lparr>sc_tenant = tenant, sc_database = database\<rparr>)) w
       = (r1, w1)"
    by fastforce
  show ?thesis
  proof (cases r1)
    case (Inl e1)
    with conn run nc last show ?thesis
      by (auto simp: last_threw_def updateRecord_def io_defs call_defs)
  next
    case client: (Inr client)
    obtain r2 w2 where gc: "sdk_getCollection sdk client collection w1 = (r2, w2)"
      by fastforce
    show ?thesis
    proof (cases r2)
      case (Inl e2)
      with conn run nc client gc last show ?thesis
        by (auto simp: last_threw_def updateRecord_def io_defs call_defs)
    next
      case (Inr col)
      from updateRecord_sends [OF conn nc [unfolded client] gc [unfolded Inr] run refl] last
      show ?thesis
        by (auto simp: last_threw_def)
    qed
  qed
qed

lemma deleteRecord_failure:
  assumes "connectedF this"
    and "deleteRecord sdk this tenant database collection ident w = (res, w', calls)"
    and "threw calls e"
  shows "res = Inl e"
  using assms
  by (auto simp: threw_iff deleteRecord_def io_defs call_defs
      split: if_splits prod.splits sum.splits)

lemma createTenant_failure:
  assumes "connectedF this"
    and "createTenant sdk this name w = (res, w', calls)"
    and "threw calls e"
  shows "res = Inl e"
  using assms
  by (auto simp: threw_iff createTenant_def io_defs call_defs
      split: if_splits prod.splits sum.splits option.splits)

lemma createDatabase_failure:
  assumes "connectedF this"
    and "createDatabase sdk this tname name w = (res, w', calls)"
    and "threw calls e"
  shows "res = Inl e"
  using assms
  by (auto simp: threw_iff createDatabase_def io_defs call_defs
      split: if_splits prod.splits sum.splits option.splits)

lemma deleteDatabase_failure:
  assumes "connectedF this"
    and "deleteDatabase sdk this tname name w = (res, w', calls)"
    and "threw calls e"
  shows "res = Inl e"
  using assms
  by (auto simp: threw_iff deleteDatabase_def io_defs call_defs
      split: if_splits prod.splits sum.splits option.splits)

text \<open>
  Claim C4, amended. On a connected facade, a read operation swallows a failed request:
  \<^verbatim>\<open>listTenants\<close> resolves to the one-element fallback
  \<^verbatim>\<open>[config.tenant || 'default_tenant']\<close>, \<^verbatim>\<open>resolveCollectionId\<close> to its input,
  \<^verbatim>\<open>listDatabases\<close>, \<^verbatim>\<open>listCollections\<close> and \<^verbatim>\<open>listRecords\<close> to the empty array,
  \<^verbatim>\<open>getRecord\<close> to \<^verbatim>\<open>undefined\<close> and \<^verbatim>\<open>queryCollection\<close> to the empty array (for the last
  three: when a request to the store threw, the scoped session being built). A mutating
  or administrative operation rejects with what its failed call threw, unchanged;
  \<^verbatim>\<open>updateRecord\<close> does so for the call it stops at, its lookup of the existing
  embedding being swallowed.
\<close>

theorem failure_policy:
  assumes "connectedF this"
  shows "(\<forall>res w' calls e. listTenants sdk this w = (res, w', calls) \<longrightarrow>
            threw calls e \<longrightarrow> res = Inr [str_or (cfg_tenant (configF this)) ''default_tenant'']) \<and>
         (\<forall>res w' calls e. listDatabases sdk this tenant' w = (res, w', calls) \<longrightarrow>
            threw calls e \<longrightarrow> res = Inr []) \<and>
         (\<forall>res w' calls e. listCollections sdk this tenant database w = (res, w', calls) \<longrightarrow>
            threw calls e \<longrightarrow> res = Inr []) \<and>
         (\<forall>res w' calls e. resolveCollectionId sdk this tenant database s w = (res, w', calls) \<longrightarrow>
            threw calls e \<longrightarrow> res = Inr (Val s)) \<and>
         (\<forall>res w' calls e. listRecords sdk this tenant database collection limit offset w = (res, w', calls) \<longrightarrow>
            request_threw calls e \<longrightarrow> res = Inr []) \<and>
         (\<forall>res w' calls e. getRecord sdk this tenant database collection ident w = (res, w', calls) \<longrightarrow>
            request_threw calls e \<longrightarrow> res = Inr None) \<and>
         (\<forall>res w' calls e. queryCollection sdk this tenant database collection opts w = (res, w', calls) \<longrightarrow>
            request_threw calls e \<longrightarrow> res = Inr (JArr [])) \<and>
         (\<forall>res w' calls e. createCollection sdk this tenant database name w = (res, w', calls) \<longrightarrow>
            threw calls e \<longrightarrow> res = Inl e) \<and>
         (\<forall>res w' calls e. deleteCollection sdk this tenant database name w = (res, w', calls) \<longrightarrow>
            threw calls e \<longrightarrow> res = Inl e) \<and>
         (\<forall>res w' calls e. renameCollection sdk this tenant database name newName w = (res, w', calls) \<longrightarrow>
            threw calls e \<longrightarrow> res = Inl e) \<and>
         (\<forall>res w' calls e. addRecord sdk this tenant database collection record generated w = (res, w', calls) \<longrightarrow>
            threw calls e \<longrightarrow> res = Inl e) \<and>
         (\<forall>res w' calls e. updateRecord sdk this tenant database collection record w = (res, w', calls) \<longrightarrow>
            last_threw calls e \<longrightarrow> res = Inl e) \<and>
         (\<forall>res w' calls e. deleteRecord sdk this tenant database collection ident w = (res, w', calls) \<longrightarrow>
            threw calls e \<longrightarrow> res = Inl e) \<and>
         (\<forall>res w' calls e. createTenant sdk this name w = (res, w', calls) \<longrightarrow>
            threw calls e \<longrightarrow> res = Inl e) \<and>
         (\<forall>res w' calls e. createDatabase sdk this tname name w = (res, w', calls) \<longrightarrow>
            threw calls e \<longrightarrow> res = Inl e) \<and>
         (\<forall>res w' calls e. deleteDatabase sdk this tname name w = (res, w', calls) \<longrightarrow>
            threw calls e \<longrightarrow> res = Inl e)"
proof (intro conjI allI impI)
  fix res w' calls e
  assume "listTenants sdk this w = (res, w', calls)"
    and "threw calls e"
  then show "res = Inr [str_or (cfg_tenant (configF this)) ''default_tenant'']"
    by (rule listTenants_failure [OF assms])
next
  fix res w' calls e
  assume "listDatabases sdk this tenant' w = (res, w', calls)"
    and "threw calls e"
  then show "res = Inr []"
    by (rule listDatabases_failure [OF assms])
next
  fix res w' calls e
  assume "listCollections sdk this tenant database w = (res, w', calls)"
    and "threw calls e"
  then show "res = Inr []"
    by (rule listCollections_failure [OF assms])
next
  fix res w' calls e
  assume "resolveCollectionId sdk this tenant database s w = (res, w', calls)"
    and "threw calls e"
  then show "res = Inr (Val s)"
    by (rule resolveCollectionId_failure [OF assms])
next
  fix res w' calls e
  assume "listRecords sdk this tenant database collection limit offset w = (res, w', calls)"
    and "request_threw calls e"
  then show "res = Inr []"
    by (rule listRecords_failure [OF assms])
next
  fix res w' calls e
  assume "getRecord sdk this tenant database collection ident w = (res, w', calls)"
    and "request_threw calls e"
  then show "res = Inr None"
    by (rule getRecord_failure [OF assms])
next
  fix res w' calls e
  assume "queryCollection sdk this tenant database collection opts w = (res, w', calls)"
    and "request_threw calls e"
  then show "res = Inr (JArr [])"
    by (rule queryCollection_failure [OF assms])
next
  fix res w' calls e
  assume "createCollection sdk this tenant database name w = (res, w', calls)"
    and "threw calls e"
  then show "res = Inl e"
    by (rule createCollection_failure [OF assms])
next
  fix res w' calls e
  assume "deleteCollection sdk this tenant database name w = (res, w', calls)"
    and "threw calls e"
  then show "res = Inl e"
    by (rule deleteCollection_failure [OF assms])
next
  fix res w' calls e
  assume "renameCollection sdk this tenant database name newName w = (res, w', calls)"
    and "threw calls e"
  then show "res = Inl e"
    by (rule renameCollection_failure [OF assms])
next
  fix res w' calls e
  assume "addRecord sdk this tenant database collection record generated w = (res, w', calls)"
    and "threw calls e"
  then show "res = Inl e"
    by (rule addRecord_failure [OF assms])
next
  fix res w' calls e
  assume "updateRecord sdk this tenant database collection record w = (res, w', calls)"
    and "last_threw calls e"
  then show "res = Inl e"
    by (rule updateRecord_failure [OF assms])
next
  fix res w' calls e
  assume "deleteRecord sdk this tenant database collection ident w = (res, w', calls)"
    and "threw calls e"
  then show "res = Inl e"
    by (rule deleteRecord_failure [OF assms])
next
  fix res w' calls e
  assume "createTenant sdk this name w = (res, w', calls)"
    and "threw calls e"
  then show "res = Inl e"
    by (rule createTenant_failure [OF assms])
next
  fix res w' calls e
  assume "createDatabase sdk this tname name w = (res, w', calls)"
    and "threw calls e"
  then show "res = Inl e"
    by (rule createDatabase_failure [OF assms])
next
  fix res w' calls e
  assume "deleteDatabase sdk this tname name w = (res, w', calls)"
    and "threw calls e"
  then show "res = Inl e"
    by (rule deleteDatabase_failure [OF assms])
qed

text \<open>
  Claim C4 as stated fails: on a connected facade whose store is down, \<^verbatim>\<open>listTenants\<close>
  resolves to \<^verbatim>\<open>['default_tenant']\<close>, which is not empty.
\<close>

theorem listTenants_fallback_counterexample:
  "connectedF connected_facade \<and>
   listTenants down_sdk connected_facade 0 =
     (Inr [''default_tenant''], 1, [(GetUserIdentity 1, Some (Error ''fetch failed''))])"
  by (simp add: listTenants_def io_defs call_defs fixture_defs js_defs)

lemma down_listRecords_run:
  "listRecords down_sdk connected_facade None None ''docs'' None None 0 =
     (Inr [], 2,
      [(NewClient \<lparr>args_host = ''localhost'', args_port = 8000, args_ssl = False,
                   args_tenant = None, args_database = None, args_headers = None\<rparr>, None),
       (GetCollection 1 ''docs'', Some (Error ''fetch failed''))])"
  by (simp add: listRecords_def io_defs call_defs fixture_defs js_defs Let_def)

lemma down_addRecord_run:
  "addRecord down_sdk connected_facade None None ''docs'' hello_record ''id_abc'' 0 =
     (Inl (Error ''fetch failed''), 2,
      [(NewClient \<lparr>args_host = ''localhost'', args_port = 8000, args_ssl = False,
                   args_tenant = None, args_database = None, args_headers = None\<rparr>, None),
       (GetOrCreateCollection 1 ''docs'', Some (Error ''fetch failed''))])"
  by (simp add: addRecord_def io_defs call_defs fixture_defs js_defs Let_def)

text \<open>Against the store that is down, a listing is empty and an insert rejects.\<close>

theorem failure_policy_witness:
  "connectedF connected_facade \<and>
   request_threw (snd (snd (listRecords down_sdk connected_facade None None ''docs'' None None 0)))
     (Error ''fetch failed'') \<and>
   fst (listRecords down_sdk connected_facade None None ''docs'' None None 0) = Inr [] \<and>
   threw (snd (snd (addRecord down_sdk connected_facade None None ''docs'' hello_record
                      ''id_abc'' 0))) (Error ''fetch failed'') \<and>
   fst (addRecord down_sdk connected_facade None None ''docs'' hello_record ''id_abc'' 0) =
     Inl (Error ''fetch failed'')"
proof -
  have c: "connectedF connected_facade"
    by (simp add: connected_facade_def)
  have r: "request_threw
      [(NewClient \<lparr>args_host = ''localhost'', args_port = 8000, args_ssl = False,
                   args_tenant = None, args_database = None, args_headers = None\<rparr>, None),
       (GetCollection 1 ''docs'', Some (Error ''fetch failed''))]
      (Error ''fetch failed'')"
    by (simp add: request_threw_def)
  note policy = failure_policy [OF c, where sdk = down_sdk and w = 0 and tenant = None
      and database = None and collection = "''docs''" and limit = None and offset = None
      and generated = "''id_abc''"]
  have reads: "\<forall>res w' calls e.
      listRecords down_sdk connected_facade None None ''docs'' None None 0 = (res, w', calls) \<longrightarrow>
      request_threw calls e \<longrightarrow> res = Inr []"
    by (rule policy [THEN conjunct2, THEN conjunct2, THEN conjunct2, THEN conjunct2,
          THEN conjunct1])
  have "Inr [] = (Inr [] :: js_error + ChromaRecord list)"
    by (rule reads [rule_format, OF down_listRecords_run r])
  moreover
  have "request_threw
      (snd (snd (listRecords down_sdk connected_facade None None ''docs'' None None 0)))
      (Error ''fetch failed'')"
    by (simp add: down_listRecords_run request_threw_def)
  moreover
  have "fst (listRecords down_sdk connected_facade None None ''docs'' None None 0) = Inr []"
    by (simp add: down_listRecords_run)
  moreover
  have "threw
      (snd (snd (addRecord down_sdk connected_facade None None ''docs'' hello_record
                   ''id_abc'' 0))) (Error ''fetch failed'')"
    by (simp add: down_addRecord_run threw_def)
  moreover
  have "fst (addRecord down_sdk connected_facade None None ''docs'' hello_record ''id_abc'' 0) =
     Inl (Error ''fetch failed'')"
    by (simp add: down_addRecord_run)
  ultimately show ?thesis
    using c by simp
qed

end
